theory Spec2Isabelle
  imports Main "HOL-Library.Multiset"
begin

section \<open>JSON documents and Python values\<close>

text \<open>
  The scripts work on the exam catalogue as parsed JSON: dictionaries whose keys may be
  missing, present with the value null, or present with a value. \<open>d.get(k)\<close> does not
  tell the first two apart, \<open>d.get(k, default)\<close> does, so the model keeps all three.
  Fields have the types of the catalogue's schema (a title is a string or null, an index
  is an integer, the questions are a list).
\<close>

datatype 'a field = Absent | Null | Val 'a

text \<open>\<open>d.get(k)\<close>: None when the key is missing or null.\<close>

fun dict_get :: "'a field \<Rightarrow> 'a option" where
  "dict_get Absent = None"
| "dict_get Null = None"
| "dict_get (Val v) = Some v"

text \<open>\<open>d.get(k, default)\<close>: the default only when the key is missing.\<close>

fun dict_get_default :: "'a field \<Rightarrow> 'a \<Rightarrow> 'a option" where
  "dict_get_default Absent d = Some d"
| "dict_get_default Null d = None"
| "dict_get_default (Val v) d = Some v"

text \<open>Truth value of an optional string: None and the empty string are false.\<close>

fun truthy :: "string option \<Rightarrow> bool" where
  "truthy None = False"
| "truthy (Some s) = (s \<noteq> [])"

text \<open>\<open>x or ""\<close> and \<open>x or []\<close> for an optional string or list.\<close>

fun or_empty :: "'a list option \<Rightarrow> 'a list" where
  "or_empty None = []"
| "or_empty (Some xs) = xs"

datatype error = TypeError | IndexError | AttributeError

text \<open>
  Subscription \<open>xs[i]\<close> of a list of length n: positions 0 to n - 1 are read directly,
  positions -n to -1 are read from the end, and every other position raises IndexError.
\<close>

definition py_index :: "'a list \<Rightarrow> int \<Rightarrow> error + 'a" where
  "py_index xs i =
     (if 0 \<le> i \<and> i < int (length xs) then Inr (xs ! nat i)
      else if i < 0 \<and> - int (length xs) \<le> i then Inr (xs ! nat (int (length xs) + i))
      else Inl IndexError)"

text \<open>\<open>sep.join(xs)\<close>.\<close>

fun join :: "string \<Rightarrow> string list \<Rightarrow> string" where
  "join sep [] = []"
| "join sep [x] = x"
| "join sep (x # y # ys) = x @ sep @ join sep (y # ys)"

text \<open>The decimal numeral of a natural number, as an f-string prints it.\<close>

definition digit_char :: "nat \<Rightarrow> char" where
  "digit_char d = ''0123456789'' ! d"

fun str_nat :: "nat \<Rightarrow> string" where
  "str_nat n = (if n < 10 then [digit_char n] else str_nat (n div 10) @ [digit_char (n mod 10)])"

declare str_nat.simps [simp del]

definition blank_line :: string where
  "blank_line = [CHR 0x0A, CHR 0x0A]"


section \<open>Python strings\<close>

text \<open>
  A Python string is modelled as the list of its code points, for code points below 256
  (the Latin-1 range, which has the accented letters of the catalogue's French, Spanish and
  Creole text). On that range \<open>str.lower\<close> maps A to Z and the accented capitals
  (0xC0 to 0xDE without the multiplication sign 0xD7) to the letter 32 positions further,
  and \<open>str.strip\<close> removes the characters 0x09 to 0x0D, 0x1C to 0x20, 0x85 and 0xA0.
\<close>

definition is_upper :: "char \<Rightarrow> bool" where
  "is_upper c = (let n = (of_char c :: nat)
                 in (65 \<le> n \<and> n \<le> 90) \<or> (192 \<le> n \<and> n \<le> 222 \<and> n \<noteq> 215))"

text \<open>
  The capitals have a code without the bit of value 32, so adding 32 is setting that bit,
  the sixth of the eight bits of a character, counted from the least significant one.
\<close>

definition lower_char :: "char \<Rightarrow> char" where
  "lower_char c =
     (if is_upper c
      then (case c of Char b0 b1 b2 b3 b4 b5 b6 b7 \<Rightarrow> Char b0 b1 b2 b3 b4 True b6 b7)
      else c)"

definition py_lower :: "string \<Rightarrow> string" where
  "py_lower s = map lower_char s"

definition is_space :: "char \<Rightarrow> bool" where
  "is_space c = (let n = (of_char c :: nat)
                 in (9 \<le> n \<and> n \<le> 13) \<or> (28 \<le> n \<and> n \<le> 32) \<or> n = 133 \<or> n = 160)"

definition py_strip :: "string \<Rightarrow> string" where
  "py_strip s = rev (dropWhile is_space (rev (dropWhile is_space s)))"

text \<open>\<open>s.startswith(p)\<close> and the substring test \<open>sub in s\<close>.\<close>

fun starts_with :: "string \<Rightarrow> string \<Rightarrow> bool" where
  "starts_with [] s = True"
| "starts_with (p # ps) [] = False"
| "starts_with (p # ps) (c # cs) = (p = c \<and> starts_with ps cs)"

fun contains :: "string \<Rightarrow> string \<Rightarrow> bool" where
  "contains sub [] = (sub = [])"
| "contains sub (c # cs) = (starts_with sub (c # cs) \<or> contains sub cs)"

subsection \<open>Substitution of the leftmost matches\<close>

text \<open>
  \<open>re.sub\<close> and \<open>str.replace\<close> scan the text from the left. A matcher looks at the text
  from the current position on and, when its pattern matches there, gives the replacement
  and the length of the match, which is at least one; the scan then emits the replacement
  and goes on behind the match. Where nothing matches, the character is copied. The second
  argument counts the characters of the current match that are still to be consumed.
\<close>

fun scan_sub :: "(string \<Rightarrow> (string \<times> nat) option) \<Rightarrow> nat \<Rightarrow> string \<Rightarrow> string" where
  "scan_sub m k [] = []"
| "scan_sub m k (c # cs) =
     (if 0 < k then scan_sub m (k - 1) cs
      else (case m (c # cs) of
              Some (replacement, n) \<Rightarrow> replacement @ scan_sub m (n - 1) cs
            | None \<Rightarrow> c # scan_sub m 0 cs))"

text \<open>\<open>s.replace(old, new)\<close> for a pattern \<open>old\<close> that is not empty.\<close>

definition literal :: "string \<Rightarrow> string \<Rightarrow> string \<Rightarrow> (string \<times> nat) option" where
  "literal old new s = (if starts_with old s then Some (new, length old) else None)"

definition py_replace :: "string \<Rightarrow> string \<Rightarrow> string \<Rightarrow> string" where
  "py_replace old new s = scan_sub (literal old new) 0 s"


section \<open>fix\_exam\_structure.py: sections, exams and plans\<close>

text \<open>
  The structural passes never look inside a question, so the question type is a parameter.
\<close>

record 'q exam_section =
  section_title :: "string field"
  instructions :: "string field"
  questions :: "'q list field"

record 'q exam =
  exam_title :: "string field"
  subject :: "string field"
  sections :: "'q exam_section list field"

text \<open>\<open>sec.get("questions") or []\<close> and \<open>exam.get("sections") or []\<close>.\<close>

definition questions_of :: "'q exam_section \<Rightarrow> 'q list" where
  "questions_of sec = or_empty (dict_get (questions sec))"

definition sections_of :: "'q exam \<Rightarrow> 'q exam_section list" where
  "sections_of exam = or_empty (dict_get (sections exam))"

subsection \<open>simple\_fix\<close>

text \<open>
  The body of the branch that folds the instructions of an empty section into the next
  section (lines 83 to 92): \<open>next_sec\<close> is updated in place, first its instructions, then
  its title when it has none and the empty section has one.
\<close>

definition merge_preamble :: "'q exam_section \<Rightarrow> 'q exam_section \<Rightarrow> 'q exam_section" where
  "merge_preamble sec next_sec =
     (let title = dict_get (section_title sec);
          existing = or_empty (dict_get (instructions next_sec));
          preamble = or_empty (dict_get_default (instructions sec) []);
          next1 = (if existing \<noteq> []
                   then next_sec\<lparr>instructions := Val (preamble @ blank_line @ existing)\<rparr>
                   else next_sec\<lparr>instructions := Val preamble\<rparr>)
      in if \<not> truthy (dict_get (section_title next1)) \<and> truthy title
         then next1\<lparr>section_title := Val (or_empty title)\<rparr>
         else next1)"

text \<open>
  The loop of \<open>simple_fix\<close> over \<open>enumerate(sections)\<close>: the first argument is \<open>idx\<close>, the
  second the sections from \<open>idx\<close> on, in their current state. The loop writes to
  \<open>sections[idx + 1]\<close> before it reaches it, so the recursive call sees the updated section.
\<close>

fun fix_sections :: "nat \<Rightarrow> 'q exam_section list \<Rightarrow> 'q exam_section list" where
  "fix_sections idx [] = []"
| "fix_sections idx (sec # rest) =
     (if questions_of sec = [] then
        (if truthy (dict_get (instructions sec)) then
           (case rest of
              [] \<Rightarrow> fix_sections (idx + 1) rest
            | next_sec # rest' \<Rightarrow> fix_sections (idx + 1) (merge_preamble sec next_sec # rest'))
         else fix_sections (idx + 1) rest)
      else
        (if dict_get (section_title sec) = None
         then sec\<lparr>section_title := Val (''Section '' @ str_nat (idx + 1))\<rparr>
         else sec) # fix_sections (idx + 1) rest)"

declare fix_sections.simps [simp del]

definition simple_fix :: "'q exam \<Rightarrow> 'q exam" where
  "simple_fix exam = exam\<lparr>sections := Val (fix_sections 0 (sections_of exam))\<rparr>"

subsection \<open>count\_questions\<close>

definition count_questions :: "'q exam \<Rightarrow> nat" where
  "count_questions exam =
     foldl (\<lambda>total sec. total + length (questions_of sec)) 0 (sections_of exam)"


subsection \<open>apply\_gemini\_plan\<close>

text \<open>
  A restructuring plan as the oracle returns it. \<open>original_indices\<close> are JSON integers, so
  they may be negative or beyond the last section.
\<close>

record plan_entry =
  original_indices :: "int list field"
  new_title :: "string field"
  new_instructions :: "string field"
  merge_strategy :: "string field"

record plan =
  analysis :: "string field"
  split_recommended :: "bool field"
  section_plan :: "plan_entry list field"

text \<open>A value stored under a key of a new dictionary: None is stored as null.\<close>

fun store :: "'a option \<Rightarrow> 'a field" where
  "store None = Null"
| "store (Some v) = Val v"

text \<open>
  The loop of the \<open>merge_into_previous\<close> branch (lines 239 to 250) over \<open>indices\<close>, with
  \<open>new_sections[-1]\<close> as its state. \<open>original_sections\<close> is None when the exam has the key
  \<open>sections\<close> with the value null, and then \<open>len(original_sections)\<close> raises.
\<close>

fun merge_indices ::
  "'q exam_section list option \<Rightarrow> int list \<Rightarrow> 'q exam_section \<Rightarrow> error + 'q exam_section" where
  "merge_indices original_sections [] last_sec = Inr last_sec"
| "merge_indices original_sections (idx # indices) last_sec =
     (case original_sections of
        None \<Rightarrow> Inl TypeError
      | Some secs \<Rightarrow>
          if idx < int (length secs) then
            (case py_index secs idx of
               Inl e \<Rightarrow> Inl e
             | Inr orig \<Rightarrow>
                 let qs = questions_of orig;
                     sec1 = last_sec\<lparr>questions := Val (questions_of last_sec @ qs)\<rparr>;
                     existing = or_empty (dict_get (instructions sec1));
                     sec2 = (if truthy (dict_get (instructions orig)) then
                               (if existing \<noteq> []
                                then sec1\<lparr>instructions :=
                                       Val (existing @ blank_line @ or_empty (dict_get (instructions orig)))\<rparr>
                                else sec1\<lparr>instructions := Val (or_empty (dict_get (instructions orig)))\<rparr>)
                             else sec1)
                 in merge_indices original_sections indices sec2)
          else merge_indices original_sections indices last_sec)"

text \<open>
  The loop of the \<open>keep\<close> and \<open>rename_only\<close> branch (lines 257 to 263), with \<open>all_questions\<close>
  and \<open>combined_instructions\<close> as its state.
\<close>

fun collect_indices ::
  "'q exam_section list option \<Rightarrow> int list \<Rightarrow> 'q list \<Rightarrow> string list \<Rightarrow>
   error + ('q list \<times> string list)" where
  "collect_indices original_sections [] all_questions combined_instructions =
     Inr (all_questions, combined_instructions)"
| "collect_indices original_sections (idx # indices) all_questions combined_instructions =
     (case original_sections of
        None \<Rightarrow> Inl TypeError
      | Some secs \<Rightarrow>
          if idx < int (length secs) then
            (case py_index secs idx of
               Inl e \<Rightarrow> Inl e
             | Inr orig \<Rightarrow>
                 collect_indices original_sections indices
                   (all_questions @ questions_of orig)
                   (if truthy (dict_get (instructions orig))
                    then combined_instructions @ [or_empty (dict_get (instructions orig))]
                    else combined_instructions))
          else collect_indices original_sections indices all_questions combined_instructions)"

text \<open>The new section of lines 266 to 278.\<close>

definition build_section ::
  "string option \<Rightarrow> string option \<Rightarrow> 'q list \<Rightarrow> string list \<Rightarrow> 'q exam_section" where
  "build_section title new_instr all_questions combined_instructions =
     (let final_instructions =
            (if combined_instructions \<noteq> [] then
               (let orig_inst = join blank_line combined_instructions
                in if truthy new_instr
                   then Some (or_empty new_instr @ blank_line @ orig_inst)
                   else Some orig_inst)
             else new_instr)
      in \<lparr>section_title = store title,
          instructions = store final_instructions,
          questions = Val all_questions\<rparr>)"

text \<open>
  The loop over the plan's entries (lines 231 to 279), with \<open>new_sections\<close> as its state. An
  entry whose \<open>original_indices\<close> is null cannot be iterated, which raises.
\<close>

fun apply_entries ::
  "'q exam_section list option \<Rightarrow> plan_entry list \<Rightarrow> 'q exam_section list \<Rightarrow>
   error + 'q exam_section list" where
  "apply_entries original_sections [] new_sections = Inr new_sections"
| "apply_entries original_sections (entry # entries) new_sections =
     (let indices = dict_get_default (original_indices entry) [];
          title = dict_get_default (new_title entry) ''Section'';
          new_instr = dict_get (new_instructions entry);
          strategy = dict_get_default (merge_strategy entry) ''keep''
      in if strategy = Some ''merge_into_previous'' \<and> new_sections \<noteq> [] then
           (case indices of
              None \<Rightarrow> Inl TypeError
            | Some is \<Rightarrow>
                (case merge_indices original_sections is (last new_sections) of
                   Inl e \<Rightarrow> Inl e
                 | Inr merged \<Rightarrow>
                     apply_entries original_sections entries (butlast new_sections @ [merged])))
         else
           (case indices of
              None \<Rightarrow> Inl TypeError
            | Some is \<Rightarrow>
                (case collect_indices original_sections is [] [] of
                   Inl e \<Rightarrow> Inl e
                 | Inr (all_questions, combined_instructions) \<Rightarrow>
                     apply_entries original_sections entries
                       (new_sections @ [build_section title new_instr all_questions combined_instructions]))))"

definition apply_gemini_plan :: "'q exam \<Rightarrow> plan \<Rightarrow> error + 'q exam" where
  "apply_gemini_plan exam p =
     (let original_sections = dict_get_default (sections exam) [];
          entries = dict_get_default (section_plan p) []
      in if or_empty entries = [] then Inr exam
         else (case apply_entries original_sections (or_empty entries) [] of
                 Inl e \<Rightarrow> Inl e
               | Inr new_sections \<Rightarrow> Inr (exam\<lparr>sections := Val new_sections\<rparr>)))"

subsection \<open>The validation gate of main\<close>

text \<open>
  The body of the oracle loop of \<open>main\<close> from the parsed plan on (lines 372 to 395): what is
  stored in \<open>exams[i]\<close>. Every exception raised in between is caught and leads to
  \<open>simple_fix\<close> of the original exam: slicing an \<open>analysis\<close> that is null, a failing
  \<open>apply_gemini_plan\<close>, and the length of a \<open>sections\<close> value that is null.
\<close>

definition restructure_exam :: "'q exam \<Rightarrow> plan \<Rightarrow> 'q exam" where
  "restructure_exam exam p =
     (let n_questions = count_questions exam
      in case dict_get_default (analysis p) ''No analysis'' of
           None \<Rightarrow> simple_fix exam
         | Some a \<Rightarrow>
             (case apply_gemini_plan exam p of
                Inl e \<Rightarrow> simple_fix exam
              | Inr restructured \<Rightarrow>
                  let new_q = count_questions restructured
                  in case dict_get_default (sections restructured) [] of
                       None \<Rightarrow> simple_fix exam
                     | Some new_secs \<Rightarrow>
                         if new_q \<noteq> n_questions then simple_fix exam else restructured))"

subsection \<open>The partition condition on a plan\<close>

text \<open>
  All indices a plan names, in the order of its entries, and the condition that they are
  each of \<open>0, ..., n - 1\<close> exactly once and nothing else.
\<close>

definition entry_indices :: "plan_entry \<Rightarrow> int list" where
  "entry_indices entry = or_empty (dict_get_default (original_indices entry) [])"

definition plan_indices :: "plan \<Rightarrow> int list" where
  "plan_indices p = concat (map entry_indices (or_empty (dict_get_default (section_plan p) [])))"

definition partition_plan :: "nat \<Rightarrow> plan \<Rightarrow> bool" where
  "partition_plan n p \<longleftrightarrow>
     list_all (\<lambda>entry. original_indices entry \<noteq> Null) (or_empty (dict_get_default (section_plan p) []))
     \<and> sort (plan_indices p) = map int [0..<n]"

text \<open>A plan with the indices at or beyond \<open>n\<close> removed from every entry.\<close>

definition drop_beyond :: "nat \<Rightarrow> plan_entry \<Rightarrow> plan_entry" where
  "drop_beyond n entry =
     (case original_indices entry of
        Val is \<Rightarrow> entry\<lparr>original_indices := Val (filter (\<lambda>i. i < int n) is)\<rparr>
      | _ \<Rightarrow> entry)"

definition skip_beyond :: "nat \<Rightarrow> plan \<Rightarrow> plan" where
  "skip_beyond n p =
     (case section_plan p of
        Val entries \<Rightarrow> p\<lparr>section_plan := Val (map (drop_beyond n) entries)\<rparr>
      | _ \<Rightarrow> p)"

text \<open>
  An entry whose indices are a list, possibly the default empty one, of integers that are
  not negative.
\<close>

definition nonneg_entry :: "plan_entry \<Rightarrow> bool" where
  "nonneg_entry entry \<longleftrightarrow> original_indices entry \<noteq> Null \<and>
     list_all (\<lambda>i. 0 \<le> i) (or_empty (dict_get_default (original_indices entry) []))"

text \<open>The number of questions of a list of sections, and indices that all lie in \<open>[0, n)\<close>.\<close>

definition total_questions :: "'q exam_section list \<Rightarrow> nat" where
  "total_questions secs = sum_list (map (\<lambda>sec. length (questions_of sec)) secs)"

definition in_range :: "nat \<Rightarrow> int list \<Rightarrow> bool" where
  "in_range n idxs \<longleftrightarrow> (\<forall>i \<in> set idxs. 0 \<le> i \<and> i < int n)"


section \<open>fix\_all\_exams.py\<close>

subsection \<open>clean\_latex\_for\_language\<close>

definition LANGUAGE_SUBJECTS :: "string list" where
  "LANGUAGE_SUBJECTS =
     [''anglais'', ''english'', ''espagnol'', ''spanish'', ''espa'' @ [CHR 0xF1] @ ''ol'',
      ''fran'' @ [CHR 0xE7] @ ''ais'', ''francais'', ''french'', ''kreyol'',
      ''krey'' @ [CHR 0xF2] @ ''l'',
      ''philosophie'', ''philosophy'', ''philo'',
      ''histoire-g'' @ [CHR 0xE9] @ ''ographie'', ''histoire'', ''g'' @ [CHR 0xE9] @ ''ographie'',
      ''histoire et g'' @ [CHR 0xE9] @ ''ographie'', ''histoire-geographie'',
      ''art et musique'', ''arts et musique'',
      [CHR 0xE9] @ ''ducation esth'' @ [CHR 0xE9] @ ''tique et artistique'',
      ''kominikasyon krey'' @ [CHR 0xF2] @ ''l'', ''culture g'' @ [CHR 0xE9] @ ''n'' @ [CHR 0xE9] @ ''rale'',
      ''connaissances g'' @ [CHR 0xE9] @ ''n'' @ [CHR 0xE9] @ ''rales'', [CHR 0xE9] @ ''thique'',
      ''art_musique'']"

definition backslash :: char where
  "backslash = CHR 0x5C"

text \<open>\<open>\d\<close> and \<open>[a-zA-Z]\<close>.\<close>

definition is_digit :: "char \<Rightarrow> bool" where
  "is_digit c = (c \<in> set ''0123456789'')"

definition is_ascii_letter :: "char \<Rightarrow> bool" where
  "is_ascii_letter c =
     (c \<in> set ''abcdefghijklmnopqrstuvwxyz'' \<or> c \<in> set ''ABCDEFGHIJKLMNOPQRSTUVWXYZ'')"

text \<open>
  The pattern of step 1: a dollar sign, one or more digits, \<open>^{\<close>, one of th, st, nd, rd,
  and \<open>}$\<close>. The digits are followed by a character that is no digit, so the greedy
  \<open>\d+\<close> can only match the whole run of digits. The replacement is the two groups.
\<close>

definition match_ordinal :: "string \<Rightarrow> (string \<times> nat) option" where
  "match_ordinal s =
     (if starts_with ''$'' s then
        (let digits = takeWhile is_digit (drop 1 s);
             s1 = dropWhile is_digit (drop 1 s);
             suffix = take 2 (drop 2 s1)
         in if digits \<noteq> [] \<and> starts_with ''^{'' s1
               \<and> suffix \<in> set [''th'', ''st'', ''nd'', ''rd'']
               \<and> starts_with ''}$'' (drop 4 s1)
            then Some (digits @ suffix, length digits + 7)
            else None)
      else None)"

text \<open>
  The pattern of the inner substitution of step 2: a backslash and one or more letters,
  replaced by nothing.
\<close>

definition match_command :: "string \<Rightarrow> (string \<times> nat) option" where
  "match_command s =
     (if starts_with [backslash] s \<and> takeWhile is_ascii_letter (drop 1 s) \<noteq> []
      then Some ([], 1 + length (takeWhile is_ascii_letter (drop 1 s)))
      else None)"

definition replace_underline :: "string \<Rightarrow> string" where
  "replace_underline inner =
     (let inner1 = py_replace [backslash, CHR '';''] '' ''
                     (py_replace [backslash, CHR '',''] '' ''
                        (py_replace [backslash, CHR '':''] '' '' inner));
          inner2 = py_replace ''}'' [] (py_replace (backslash # ''text{'') [] inner1);
          inner3 = scan_sub match_command 0 inner2
      in py_strip inner3)"

text \<open>
  The pattern of step 2: \<open>$\underline{\<close>, one or more characters other than the closing
  brace, and \<open>}$\<close>.
\<close>

definition match_underline :: "string \<Rightarrow> (string \<times> nat) option" where
  "match_underline s =
     (if starts_with (''$'' @ backslash # ''underline{'') s then
        (let inner = takeWhile (\<lambda>c. c \<noteq> CHR ''}'') (drop 12 s);
             s1 = dropWhile (\<lambda>c. c \<noteq> CHR ''}'') (drop 12 s)
         in if inner \<noteq> [] \<and> starts_with ''}$'' s1
            then Some (replace_underline inner, length inner + 14)
            else None)
      else None)"

text \<open>The counters of the statistics registry are left out: nothing reads them.\<close>

definition clean_latex_for_language :: "string \<Rightarrow> string \<Rightarrow> string" where
  "clean_latex_for_language text subject_lower =
     (if text = [] \<or> subject_lower \<notin> set LANGUAGE_SUBJECTS then text
      else
        (let text1 = scan_sub match_ordinal 0 text;
             text2 = scan_sub match_underline 0 text1;
             text3 = py_replace (''$'' @ backslash # ''ldots$'') ''...'' text2;
             text4 = py_replace (backslash # ''ldots'') ''...'' text3
         in text4))"

text \<open>Text without a dollar sign and without a backslash: no pattern of the cleanup starts in it.\<close>

definition plain :: "string \<Rightarrow> bool" where
  "plain s = list_all (\<lambda>c. c \<noteq> CHR ''$'' \<and> c \<noteq> backslash) s"


subsection \<open>Questions\<close>

text \<open>
  A value of an option or a hint is a string or some other JSON value; the code asks
  \<open>isinstance(val, str)\<close> before it uses one. The \<open>correct\<close> field holds text or, for
  matching questions, a map from labels to answers.
\<close>

datatype jval = Str string | NonStr

datatype correct_value = Text string | Matching "(string \<times> string) list"

record answer_part =
  label :: "string field"
  answer :: "string field"

text \<open>
  The keys \<open>type\<close> and \<open>question\<close> of a question are the fields \<open>qtype\<close> and
  \<open>question_text\<close>. The options are kept in the order in which the dictionary iterates.
\<close>

record question =
  qtype :: "string field"
  question_text :: "string field"
  options :: "(string \<times> jval) list field"
  correct :: "correct_value field"
  final_answer :: "string field"
  answer_parts :: "answer_part list field"
  model_answer :: "string field"
  scaffold_text :: "string field"
  explanation :: "string field"
  hints :: "jval list field"

text \<open>Truth value of \<open>correct\<close>: None, the empty string and the empty map are false.\<close>

fun truthy_correct :: "correct_value option \<Rightarrow> bool" where
  "truthy_correct None = False"
| "truthy_correct (Some (Text s)) = (s \<noteq> [])"
| "truthy_correct (Some (Matching m)) = (m \<noteq> [])"

subsection \<open>extract\_correct\_from\_answer\_parts\<close>

definition correct_labels :: "string list" where
  "correct_labels =
     [''correct option'', ''option'', ''correct'', ''r'' @ [CHR 0xE9] @ ''ponse correcte'',
      ''option correcte'', ''opci'' @ [CHR 0xF3] @ ''n correcta'', ''respuesta correcta'']"

fun extract_correct_from_answer_parts :: "answer_part list \<Rightarrow> string option" where
  "extract_correct_from_answer_parts [] = None"
| "extract_correct_from_answer_parts (ap # rest) =
     (if py_lower (or_empty (dict_get (label ap))) \<in> set correct_labels
      then Some (py_strip (or_empty (dict_get (answer ap))))
      else extract_correct_from_answer_parts rest)"

subsection \<open>fix\_mcq\_correct\_key\<close>

text \<open>
  The loops \<open>for key, val in options.items()\<close> that stop at the first string value with a
  given property and take its key.
\<close>

fun first_option_with :: "(string \<Rightarrow> bool) \<Rightarrow> (string \<times> jval) list \<Rightarrow> string option" where
  "first_option_with P [] = None"
| "first_option_with P ((key, Str val) # rest) =
     (if P val then Some key else first_option_with P rest)"
| "first_option_with P ((key, NonStr) # rest) = first_option_with P rest"

text \<open>
  The function changes the question in place and returns whether it did; the callers drop
  that flag, so the model returns the question. A \<open>correct\<close> that is a map has no
  \<open>lower\<close>, which raises AttributeError.
\<close>

definition fix_mcq_correct_key :: "question \<Rightarrow> error + question" where
  "fix_mcq_correct_key question =
     (let opts = or_empty (dict_get (options question))
      in if \<not> truthy_correct (dict_get (correct question)) \<or> opts = [] then Inr question
         else
           (case dict_get (correct question) of
              Some (Text c) \<Rightarrow>
                if py_lower c \<in> set (map (\<lambda>(k, v). py_lower k) opts) then Inr question
                else
                  (case first_option_with (\<lambda>val. py_strip (py_lower val) = py_strip (py_lower c)) opts of
                     Some key \<Rightarrow> Inr (question\<lparr>correct := Val (Text key)\<rparr>)
                   | None \<Rightarrow>
                       (case first_option_with
                               (\<lambda>val. contains (py_strip (py_lower c)) (py_strip (py_lower val))) opts of
                          Some key \<Rightarrow> Inr (question\<lparr>correct := Val (Text key)\<rparr>)
                        | None \<Rightarrow> Inr question))
            | _ \<Rightarrow> Inl AttributeError))"

subsection \<open>fix\_question\<close>

text \<open>Fix 0 (lines 160 to 171): a question without a type gets one.\<close>

definition resolve_type :: "question \<Rightarrow> question" where
  "resolve_type question =
     (if dict_get (qtype question) = None then
        (let qtext = py_lower (or_empty (dict_get (question_text question)))
         in if or_empty (dict_get (options question)) \<noteq> []
            then question\<lparr>qtype := Val ''multiple_choice''\<rparr>
            else if contains ''dissertation'' qtext
                    \<or> contains (''r'' @ [CHR 0xE9] @ ''diger'') qtext
                    \<or> contains ''write'' qtext
            then question\<lparr>qtype := Val ''essay''\<rparr>
            else question\<lparr>qtype := Val ''short_answer''\<rparr>)
      else question)"

definition option_letters :: "string list" where
  "option_letters = [''a'', ''b'', ''c'', ''d'', ''e'', ''f'']"

text \<open>Fix 1, first half (lines 176 to 196): the correct option from \<open>final_answer\<close>.\<close>

definition mcq_from_final :: "question \<Rightarrow> string \<Rightarrow> question" where
  "mcq_from_final question fa =
     (if fa \<noteq> [] then
        (let fa_lower = py_strip (py_lower fa);
             opts = or_empty (dict_get (options question))
         in if fa_lower \<in> set option_letters
            then question\<lparr>correct := Val (Text fa_lower)\<rparr>
            else if 1 \<le> length fa_lower \<and> hd fa_lower \<in> set ''abcdef''
                    \<and> (length fa_lower = 1 \<or> fa_lower ! 1 \<in> set ''.):, '')
            then question\<lparr>correct := Val (Text [hd fa_lower])\<rparr>
            else if opts \<noteq> [] then
              (case first_option_with
                      (\<lambda>val. py_strip (py_lower val) = fa_lower \<or> fa_lower = py_strip (py_lower val))
                      opts of
                 Some key \<Rightarrow> question\<lparr>correct := Val (Text key)\<rparr>
               | None \<Rightarrow> question)
            else question)
      else question)"

text \<open>Fix 1, second half (lines 199 to 212): the correct option from \<open>answer_parts\<close>.\<close>

definition mcq_from_parts :: "question \<Rightarrow> answer_part list \<Rightarrow> question" where
  "mcq_from_parts question parts =
     (if \<not> truthy_correct (dict_get (correct question)) then
        (case extract_correct_from_answer_parts parts of
           None \<Rightarrow> question
         | Some extracted \<Rightarrow>
             if extracted \<noteq> [] then
               (let ext_lower = py_strip (py_lower extracted);
                    opts = or_empty (dict_get (options question))
                in if ext_lower \<in> set option_letters
                   then question\<lparr>correct := Val (Text ext_lower)\<rparr>
                   else if opts \<noteq> [] then
                     (case first_option_with (\<lambda>val. py_strip (py_lower val) = ext_lower) opts of
                        Some key \<Rightarrow> question\<lparr>correct := Val (Text key)\<rparr>
                      | None \<Rightarrow> question)
                   else question)
             else question)
      else question)"

text \<open>Fix 3 (lines 220 to 232): the answer of a fill-in-the-blank question.\<close>

definition skip_values :: "string list" where
  "skip_values =
     [''cannot be determined'', ''incomplete question'', ''n/a'', [],
      ''no model answer available'', ''cannot be determined from provided text'']"

fun first_answer :: "answer_part list \<Rightarrow> string option" where
  "first_answer [] = None"
| "first_answer (ap # rest) =
     (let ans = py_strip (or_empty (dict_get (answer ap)))
      in if ans \<noteq> [] \<and> py_lower ans \<notin> set skip_values then Some ans else first_answer rest)"

definition fill_blank_correct :: "question \<Rightarrow> string \<Rightarrow> answer_part list \<Rightarrow> question" where
  "fill_blank_correct question fa parts =
     (if fa \<noteq> [] \<and> py_strip (py_lower fa) \<notin> set skip_values
      then question\<lparr>correct := Val (Text fa)\<rparr>
      else if parts \<noteq> [] then
        (case first_answer parts of
           Some ans \<Rightarrow> question\<lparr>correct := Val (Text ans)\<rparr>
         | None \<Rightarrow> question)
      else question)"

text \<open>Fix 4 (lines 236 to 246): the answer of a true-or-false question.\<close>

definition true_false_correct :: "question \<Rightarrow> string \<Rightarrow> question" where
  "true_false_correct question fa =
     (if fa \<noteq> [] then
        (let fa_lower = py_strip (py_lower fa)
         in if fa_lower \<in> set [''vrai'', ''faux'', ''true'', ''false'', ''v'', ''f'']
            then question\<lparr>correct := Val (Text fa_lower)\<rparr>
            else if contains ''vrai'' fa_lower then question\<lparr>correct := Val (Text ''vrai'')\<rparr>
            else if contains ''faux'' fa_lower then question\<lparr>correct := Val (Text ''faux'')\<rparr>
            else question)
      else question)"

text \<open>Fix 5 (lines 249 to 266): the cleanup of the text fields and of the hints.\<close>

definition clean_field :: "string field \<Rightarrow> string \<Rightarrow> string field" where
  "clean_field f subject_lower =
     (case dict_get f of
        None \<Rightarrow> f
      | Some val \<Rightarrow>
          if val \<noteq> [] then
            (let cleaned = clean_latex_for_language val subject_lower
             in if cleaned \<noteq> val then Val cleaned else f)
          else f)"

definition clean_hint :: "string \<Rightarrow> jval \<Rightarrow> jval" where
  "clean_hint subject_lower h =
     (case h of Str s \<Rightarrow> Str (clean_latex_for_language s subject_lower) | NonStr \<Rightarrow> NonStr)"

definition clean_fields :: "question \<Rightarrow> string \<Rightarrow> question" where
  "clean_fields question subject_lower =
     (if subject_lower \<in> set LANGUAGE_SUBJECTS then
        (let q1 = question\<lparr>question_text := clean_field (question_text question) subject_lower\<rparr>;
             q2 = q1\<lparr>model_answer := clean_field (model_answer q1) subject_lower\<rparr>;
             q3 = q2\<lparr>scaffold_text := clean_field (scaffold_text q2) subject_lower\<rparr>;
             q4 = q3\<lparr>explanation := clean_field (explanation q3) subject_lower\<rparr>;
             hs = or_empty (dict_get_default (hints q4) [])
         in if hs \<noteq> [] then q4\<lparr>hints := Val (map (clean_hint subject_lower) hs)\<rparr> else q4)
      else question)"

text \<open>
  \<open>fix_question\<close>. The variables \<open>correct\<close> and \<open>options\<close> are read once, before any fix,
  and \<open>qtype\<close> is read again after Fix 0; the conditions of Fix 1, 3 and 4 use that first
  value of \<open>correct\<close>, the second half of Fix 1 and Fix 2 the current one. Fix 6 changes
  nothing. The only step that can raise is \<open>fix_mcq_correct_key\<close>.
\<close>

definition fix_question :: "question \<Rightarrow> string \<Rightarrow> error + question" where
  "fix_question question subject_lower =
     (let correct0 = dict_get (correct question);
          fa = py_strip (or_empty (dict_get (final_answer question)));
          parts = or_empty (dict_get_default (answer_parts question) []);
          q0 = resolve_type question;
          qt = dict_get (qtype q0);
          q1 = (if qt = Some ''multiple_choice'' \<and> \<not> truthy_correct correct0
                then mcq_from_parts (mcq_from_final q0 fa) parts else q0)
      in case (if qt = Some ''multiple_choice'' \<and> truthy_correct (dict_get (correct q1))
               then fix_mcq_correct_key q1 else Inr q1) of
           Inl e \<Rightarrow> Inl e
         | Inr q2 \<Rightarrow>
             (let q3 = (if qt = Some ''fill_blank'' \<and> \<not> truthy_correct correct0
                        then fill_blank_correct q2 fa parts else q2);
                  q4 = (if qt = Some ''true_false'' \<and> \<not> truthy_correct correct0
                        then true_false_correct q3 fa else q3)
              in Inr (clean_fields q4 subject_lower)))"

text \<open>
  For comparison: \<open>fix_question\<close> with the three inference steps (Fix 1, 3 and 4) taken
  out, so that only the type, the key correction and the text cleanup remain.
\<close>

definition fix_without_inference :: "question \<Rightarrow> string \<Rightarrow> error + question" where
  "fix_without_inference question subject_lower =
     (let q0 = resolve_type question
      in case (if dict_get (qtype q0) = Some ''multiple_choice''
                  \<and> truthy_correct (dict_get (correct q0))
               then fix_mcq_correct_key q0 else Inr q0) of
           Inl e \<Rightarrow> Inl e
         | Inr q2 \<Rightarrow> Inr (clean_fields q2 subject_lower))"

subsection \<open>Matching an answer against the options\<close>

text \<open>
  The two comparisons of the key correction, both on lower-cased and stripped text:
  equality, and containment of the first text in the second. \<open>no_value_with\<close> says that no
  string value of the options has a property.
\<close>

definition same_text :: "string \<Rightarrow> string \<Rightarrow> bool" where
  "same_text a b \<longleftrightarrow> py_strip (py_lower a) = py_strip (py_lower b)"

definition text_within :: "string \<Rightarrow> string \<Rightarrow> bool" where
  "text_within a b \<longleftrightarrow> contains (py_strip (py_lower a)) (py_strip (py_lower b))"

definition no_value_with :: "(string \<Rightarrow> bool) \<Rightarrow> (string \<times> jval) list \<Rightarrow> bool" where
  "no_value_with P opts =
     list_all (\<lambda>(k, v). case v of Str s \<Rightarrow> \<not> P s | NonStr \<Rightarrow> True) opts"

text \<open>A text that is a letter from a to f followed by one of the separators and anything.\<close>

definition letter_then_separator :: "string \<Rightarrow> bool" where
  "letter_then_separator s =
     (case s of
        l # sep # rest \<Rightarrow> l \<in> set ''abcdef'' \<and> sep \<in> set ''.):, ''
      | _ \<Rightarrow> False)"


section \<open>Sample exams, plans and questions\<close>

text \<open>
  An exam of one section with one question, and a plan of two entries that name that
  section once and, next to it, the positions 7 and 3, which the exam does not have.
\<close>

definition one_section_exam :: "nat exam" where
  "one_section_exam =
     \<lparr>exam_title = Val ''Anglais 2019'', subject = Val ''Anglais'',
      sections = Val [\<lparr>section_title = Val ''I'', instructions = Val ''Read.'',
                        questions = Val [1]\<rparr>]\<rparr>"

definition beyond_plan :: plan where
  "beyond_plan =
     \<lparr>analysis = Val ''renamed'', split_recommended = Val False,
      section_plan = Val
        [\<lparr>original_indices = Val [0, 7], new_title = Val ''I. Reading'',
          new_instructions = Null, merge_strategy = Val ''keep''\<rparr>,
         \<lparr>original_indices = Val [3], new_title = Val ''II'',
          new_instructions = Null, merge_strategy = Val ''merge_into_previous''\<rparr>]\<rparr>"

text \<open>
  An exam of two sections with one question each; a plan that names the first section twice
  and the second not at all; and a plan that names each section once.
\<close>

definition two_section_exam :: "nat exam" where
  "two_section_exam =
     \<lparr>exam_title = Val ''Anglais 2020'', subject = Val ''Anglais'',
      sections = Val [\<lparr>section_title = Val ''A'', instructions = Null, questions = Val [5]\<rparr>,
                      \<lparr>section_title = Val ''B'', instructions = Null, questions = Val [7]\<rparr>]\<rparr>"

definition repeating_plan :: plan where
  "repeating_plan =
     \<lparr>analysis = Val ''merged'', split_recommended = Val False,
      section_plan = Val
        [\<lparr>original_indices = Val [0, 0], new_title = Val ''Part'',
          new_instructions = Null, merge_strategy = Val ''keep''\<rparr>]\<rparr>"

definition covering_plan :: plan where
  "covering_plan =
     \<lparr>analysis = Val ''merged'', split_recommended = Val False,
      section_plan = Val
        [\<lparr>original_indices = Val [1], new_title = Val ''Part'',
          new_instructions = Null, merge_strategy = Val ''keep''\<rparr>,
         \<lparr>original_indices = Val [0], new_title = Val ''Rest'',
          new_instructions = Null, merge_strategy = Val ''merge_into_previous''\<rparr>]\<rparr>"

text \<open>
  The scenario of an empty section of general instructions before a section that has
  instructions of its own; neither has a title.
\<close>

definition consignes_exam :: "nat exam" where
  "consignes_exam =
     \<lparr>exam_title = Val ''Texte 2018'', subject = Val ''Francais'',
      sections = Val
        [\<lparr>section_title = Null,
          instructions = Val (''Consignes g'' @ [CHR 0xE9] @ ''n'' @ [CHR 0xE9] @ ''rales''),
          questions = Val []\<rparr>,
         \<lparr>section_title = Null, instructions = Val ''Lisez le texte.'',
          questions = Val [3]\<rparr>]\<rparr>"

text \<open>
  A short-answer question without \<open>correct\<close> that has a final answer and an answer part
  naming an option; a true-or-false question whose \<open>correct\<close> is set and whose final answer
  says the opposite; a multiple-choice question whose \<open>correct\<close> is the text of the second
  option and is contained in the text of the first; the multiple-choice question of the
  colour scenario; and a multiple-choice question whose final answer is a part of an
  option's text.
\<close>

definition short_answer_question :: question where
  "short_answer_question =
     \<lparr>qtype = Val ''short_answer'', question_text = Val ''Name the capital.'',
      options = Null, correct = Null, final_answer = Val ''b'',
      answer_parts = Val [\<lparr>label = Val ''Correct option'', answer = Val ''a''\<rparr>],
      model_answer = Null, scaffold_text = Null, explanation = Null, hints = Absent\<rparr>"

definition true_false_question :: question where
  "true_false_question =
     \<lparr>qtype = Val ''true_false'', question_text = Val ''Paris is in Spain.'',
      options = Null, correct = Val (Text ''faux''), final_answer = Val ''Vrai'',
      answer_parts = Absent,
      model_answer = Null, scaffold_text = Null, explanation = Null, hints = Absent\<rparr>"

definition paris_question :: question where
  "paris_question =
     \<lparr>qtype = Val ''multiple_choice'', question_text = Val ''Name the capital.'',
      options = Val [(''a'', Str ''Paris, France''), (''b'', Str ''Paris'')],
      correct = Val (Text ''paris''), final_answer = Null, answer_parts = Absent,
      model_answer = Null, scaffold_text = Null, explanation = Null, hints = Absent\<rparr>"

definition colour_question :: question where
  "colour_question =
     \<lparr>qtype = Val ''multiple_choice'', question_text = Val ''Pick the American spelling.'',
      options = Val [(''a'', Str ''Colour''), (''b'', Str ''Colour''), (''c'', Str ''Color''),
                     (''d'', Str ''Colours'')],
      correct = Null, final_answer = Val ''Color'', answer_parts = Absent,
      model_answer = Null, scaffold_text = Null, explanation = Null, hints = Absent\<rparr>"

definition part_question :: question where
  "part_question =
     \<lparr>qtype = Val ''multiple_choice'', question_text = Val ''Name the capital.'',
      options = Val [(''a'', Str ''Paris, France''), (''b'', Str ''Lyon'')],
      correct = Null, final_answer = Val ''Paris'', answer_parts = Absent,
      model_answer = Null, scaffold_text = Null, explanation = Null, hints = Absent\<rparr>"


text \<open>A plan for the exam of two sections that leaves the second section out.\<close>

definition dropping_plan :: plan where
  "dropping_plan =
     \<lparr>analysis = Val ''kept the first part'', split_recommended = Val False,
      section_plan = Val
        [\<lparr>original_indices = Val [0], new_title = Val ''Part'',
          new_instructions = Null, merge_strategy = Val ''keep''\<rparr>]\<rparr>"

section \<open>Properties of the structural repair\<close>

subsection \<open>The repair loop, step by step\<close>

lemma fix_sections_Nil [simp]: "fix_sections idx [] = []"
  by (simp add: fix_sections.simps(1))

lemma fix_sections_drop_last:
  "questions_of sec = [] \<Longrightarrow> fix_sections idx [sec] = []"
  by (simp add: fix_sections.simps(2)[of idx sec])

lemma fix_sections_drop_plain:
  "questions_of sec = [] \<Longrightarrow> \<not> truthy (dict_get (instructions sec)) \<Longrightarrow>
   fix_sections idx (sec # rest) = fix_sections (Suc idx) rest"
  by (simp add: fix_sections.simps(2)[of idx sec])

lemma fix_sections_drop_merge:
  "questions_of sec = [] \<Longrightarrow> truthy (dict_get (instructions sec)) \<Longrightarrow>
   fix_sections idx (sec # next_sec # rest) = fix_sections (Suc idx) (merge_preamble sec next_sec # rest)"
  by (simp add: fix_sections.simps(2)[of idx sec])

lemma fix_sections_keep:
  "questions_of sec \<noteq> [] \<Longrightarrow>
   fix_sections idx (sec # rest) =
     (if dict_get (section_title sec) = None
      then sec\<lparr>section_title := Val (''Section '' @ str_nat (idx + 1))\<rparr>
      else sec) # fix_sections (Suc idx) rest"
  by (simp add: fix_sections.simps(2)[of idx sec])

lemma fix_sections_induct [case_names Nil drop_last drop_plain drop_merge keep]:
  assumes nil: "\<And>idx. P idx []"
    and drop_last: "\<And>idx sec. questions_of sec = [] \<Longrightarrow> P idx [sec]"
    and drop_plain: "\<And>idx sec rest. questions_of sec = [] \<Longrightarrow>
          \<not> truthy (dict_get (instructions sec)) \<Longrightarrow> P (Suc idx) rest \<Longrightarrow> P idx (sec # rest)"
    and drop_merge: "\<And>idx sec next_sec rest. questions_of sec = [] \<Longrightarrow>
          truthy (dict_get (instructions sec)) \<Longrightarrow>
          P (Suc idx) (merge_preamble sec next_sec # rest) \<Longrightarrow> P idx (sec # next_sec # rest)"
    and keep: "\<And>idx sec rest. questions_of sec \<noteq> [] \<Longrightarrow> P (Suc idx) rest \<Longrightarrow> P idx (sec # rest)"
  shows "P idx secs"
proof (induction "length secs" arbitrary: idx secs)
  case 0
  then show ?case by (simp add: nil)
next
  case (Suc n)
  then obtain sec rest where secs: "secs = sec # rest" and len: "n = length rest"
    by (cases secs) auto
  show ?case
  proof (cases "questions_of sec = []")
    case False
    show ?thesis unfolding secs by (rule keep[OF False Suc(1)[OF len]])
  next
    case empty: True
    show ?thesis
    proof (cases "truthy (dict_get (instructions sec))")
      case False
      show ?thesis unfolding secs by (rule drop_plain[OF empty False Suc(1)[OF len]])
    next
      case True
      show ?thesis
      proof (cases rest)
        case Nil
        with empty show ?thesis unfolding secs by (simp add: drop_last)
      next
        case (Cons next_sec rest')
        with len have len': "n = length (merge_preamble sec next_sec # rest')" by simp
        show ?thesis unfolding secs Cons by (rule drop_merge[OF empty True Suc(1)[OF len']])
      qed
    qed
  qed
qed

lemma merge_preamble_questions [simp]: "questions_of (merge_preamble sec nxt) = questions_of nxt"
  by (simp add: merge_preamble_def questions_of_def Let_def)

lemma fix_sections_survivors:
  "s \<in> set (fix_sections idx secs) \<Longrightarrow> questions_of s \<noteq> [] \<and> dict_get (section_title s) \<noteq> None"
proof (induction idx secs rule: fix_sections_induct)
  case (keep idx sec rest)
  then show ?case
    by (auto simp: fix_sections_keep questions_of_def split: if_splits)
qed (simp_all add: fix_sections_drop_last fix_sections_drop_plain fix_sections_drop_merge)

lemma fix_sections_fixpoint:
  "\<forall>s \<in> set secs. questions_of s \<noteq> [] \<and> dict_get (section_title s) \<noteq> None \<Longrightarrow>
   fix_sections idx secs = secs"
  by (induction secs arbitrary: idx) (auto simp: fix_sections_keep)

lemma sections_of_simple_fix [simp]: "sections_of (simple_fix exam) = fix_sections 0 (sections_of exam)"
  by (simp add: simple_fix_def sections_of_def)

text \<open>
  Claim C3. The deterministic repairer is idempotent: for every exam, running
  \<open>simple_fix\<close> on the result of \<open>simple_fix\<close> gives that result again. After one pass
  every section has a question and a title, and the pass leaves such sections alone.
\<close>

theorem simple_fix_idempotent: "simple_fix (simple_fix exam) = simple_fix exam"
proof -
  have "fix_sections 0 (fix_sections 0 (sections_of exam)) = fix_sections 0 (sections_of exam)"
    by (rule fix_sections_fixpoint) (blast dest: fix_sections_survivors)
  then have "fix_sections 0 (sections_of (simple_fix exam)) = fix_sections 0 (sections_of exam)"
    by simp
  then show ?thesis
    by (simp add: simple_fix_def)
qed

lemma foldl_count: "foldl (\<lambda>total sec. total + length (questions_of sec)) a secs
   = a + sum_list (map (\<lambda>sec. length (questions_of sec)) secs)"
  by (induction secs arbitrary: a) auto

lemma count_questions_sum:
  "count_questions exam = sum_list (map (\<lambda>sec. length (questions_of sec)) (sections_of exam))"
  by (simp add: count_questions_def foldl_count)

lemma fix_sections_count:
  "sum_list (map (\<lambda>sec. length (questions_of sec)) (fix_sections idx secs))
   = sum_list (map (\<lambda>sec. length (questions_of sec)) secs)"
proof (induction idx secs rule: fix_sections_induct)
  case (keep idx sec rest)
  then show ?case
    by (simp add: fix_sections_keep questions_of_def)
qed (simp_all add: fix_sections_drop_last fix_sections_drop_plain fix_sections_drop_merge)

lemma count_simple_fix: "count_questions (simple_fix exam) = count_questions exam"
  by (simp add: count_questions_sum fix_sections_count)

subsection \<open>Conservation of the question count\<close>

text \<open>
  Claim C1. Whatever the exam and the plan, the exam that the oracle loop stores has as many
  questions as the exam it started from. When the plan applier returns an exam with another
  count, that result is dropped and \<open>simple_fix\<close> of the original exam is stored, as it
  is when the application raises, and \<open>simple_fix\<close> itself removes only sections without
  questions.
\<close>

theorem restructure_conserves_count:
  "count_questions (restructure_exam exam p) = count_questions exam
   \<and> (apply_gemini_plan exam p = Inr restructured
        \<and> count_questions restructured \<noteq> count_questions exam \<longrightarrow>
      restructure_exam exam p = simple_fix exam)"
proof
  show "count_questions (restructure_exam exam p) = count_questions exam"
    by (simp add: restructure_exam_def Let_def count_simple_fix split: option.splits sum.splits)
  show "apply_gemini_plan exam p = Inr restructured
        \<and> count_questions restructured \<noteq> count_questions exam \<longrightarrow>
      restructure_exam exam p = simple_fix exam"
    by (simp add: restructure_exam_def Let_def split: option.splits)
qed

theorem restructure_conserves_count_witness:
  "apply_gemini_plan two_section_exam dropping_plan
     = Inr (two_section_exam\<lparr>sections :=
              Val [\<lparr>section_title = Val ''Part'', instructions = Null, questions = Val [5]\<rparr>]\<rparr>)
   \<and> count_questions (two_section_exam\<lparr>sections :=
              Val [\<lparr>section_title = Val ''Part'', instructions = Null, questions = Val [5]\<rparr>]\<rparr>)
       \<noteq> count_questions two_section_exam
   \<and> restructure_exam two_section_exam dropping_plan = simple_fix two_section_exam
   \<and> count_questions (restructure_exam two_section_exam dropping_plan) = 2"
proof -
  let ?applied = "two_section_exam\<lparr>sections :=
              Val [\<lparr>section_title = Val ''Part'', instructions = Null, questions = Val [5]\<rparr>]\<rparr>"
  have a: "apply_gemini_plan two_section_exam dropping_plan = Inr ?applied"
    by (simp add: apply_gemini_plan_def dropping_plan_def two_section_exam_def Let_def
        py_index_def questions_of_def build_section_def)
  have c: "count_questions two_section_exam = 2"
    by (simp add: count_questions_def two_section_exam_def sections_of_def questions_of_def)
  have d: "count_questions ?applied \<noteq> count_questions two_section_exam"
    by (simp add: c) (simp add: count_questions_def sections_of_def questions_of_def)
  from restructure_conserves_count[of two_section_exam dropping_plan ?applied] a d
  have r: "count_questions (restructure_exam two_section_exam dropping_plan)
             = count_questions two_section_exam
           \<and> restructure_exam two_section_exam dropping_plan = simple_fix two_section_exam"
    by blast
  from r[unfolded c] a d show ?thesis by blast
qed

subsection \<open>Indices beyond the last section\<close>

lemma merge_indices_filter:
  "merge_indices (Some secs) (filter (\<lambda>i. i < int (length secs)) is) last_sec
   = merge_indices (Some secs) is last_sec"
  by (induction "is" arbitrary: last_sec) (simp_all add: Let_def split: sum.splits)

lemma collect_indices_filter:
  "collect_indices (Some secs) (filter (\<lambda>i. i < int (length secs)) is) qs ci
   = collect_indices (Some secs) is qs ci"
  by (induction "is" arbitrary: qs ci) (simp_all add: Let_def split: sum.splits)

lemma drop_beyond_fields [simp]:
  "new_title (drop_beyond n e) = new_title e"
  "new_instructions (drop_beyond n e) = new_instructions e"
  "merge_strategy (drop_beyond n e) = merge_strategy e"
  by (simp_all add: drop_beyond_def split: field.splits)

lemma drop_beyond_indices:
  "dict_get_default (original_indices (drop_beyond n e)) [] =
   map_option (filter (\<lambda>i. i < int n)) (dict_get_default (original_indices e) [])"
  by (cases "original_indices e") (simp_all add: drop_beyond_def)

lemma apply_entries_filter:
  "apply_entries (Some secs) (map (drop_beyond (length secs)) entries) new_sections
   = apply_entries (Some secs) entries new_sections"
proof (induction entries arbitrary: new_sections)
  case Nil
  show ?case by simp
next
  case (Cons e entries)
  show ?case
  proof (cases "dict_get_default (original_indices e) []")
    case None
    then show ?thesis by (simp add: drop_beyond_indices Let_def)
  next
    case (Some "is")
    then show ?thesis
      by (simp add: drop_beyond_indices Let_def merge_indices_filter collect_indices_filter Cons.IH
          split: sum.splits prod.splits)
  qed
qed


lemma py_index_in_range:
  "0 \<le> i \<Longrightarrow> i < int (length xs) \<Longrightarrow> py_index xs i = Inr (xs ! nat i)"
  by (simp add: py_index_def)

lemma merge_indices_total:
  "\<forall>i \<in> set is. 0 \<le> i \<Longrightarrow> \<exists>merged. merge_indices (Some secs) is last_sec = Inr merged"
  by (induction "is" arbitrary: last_sec) (simp_all add: Let_def py_index_in_range)

lemma collect_indices_total:
  "\<forall>i \<in> set is. 0 \<le> i \<Longrightarrow> \<exists>r. collect_indices (Some secs) is qs ci = Inr r"
  by (induction "is" arbitrary: qs ci) (simp_all add: Let_def py_index_in_range)

lemma apply_entries_total:
  "list_all nonneg_entry entries \<Longrightarrow>
   \<exists>out. apply_entries (Some secs) entries new_sections = Inr out"
proof (induction entries arbitrary: new_sections)
  case Nil
  show ?case by simp
next
  case (Cons e entries)
  from Cons.prems obtain idxs where idxs: "dict_get_default (original_indices e) [] = Some idxs"
    and nonneg: "\<forall>i \<in> set idxs. 0 \<le> i"
    by (cases "original_indices e") (auto simp: nonneg_entry_def list_all_iff)
  from Cons.prems have rest: "list_all nonneg_entry entries" by simp
  show ?case
  proof (cases "dict_get_default (merge_strategy e) ''keep'' = Some ''merge_into_previous'' \<and> new_sections \<noteq> []")
    case True
    from merge_indices_total[OF nonneg] obtain merged
      where "merge_indices (Some secs) idxs (last new_sections) = Inr merged" by blast
    with True idxs Cons.IH[OF rest] show ?thesis by (simp add: Let_def)
  next
    case False
    from collect_indices_total[OF nonneg] obtain qs ci
      where "collect_indices (Some secs) idxs [] [] = Inr (qs, ci)" by fastforce
    with False idxs Cons.IH[OF rest] show ?thesis by (auto simp add: Let_def)
  qed
qed

text \<open>
  Claim C9. For an exam whose sections are a list of length n, an index of the plan that is
  n or more is skipped: the plan gives the same result, failure included, as the plan with
  all such indices removed from every entry, so such an index adds no question and no
  instruction on either path. And when no index is negative, however large the indices
  are, the plan applier returns an exam.
\<close>

theorem apply_gemini_plan_skips_beyond:
  assumes "sections exam \<noteq> Null"
  shows "apply_gemini_plan exam (skip_beyond (length (sections_of exam)) p) = apply_gemini_plan exam p
     \<and> (list_all nonneg_entry (or_empty (dict_get_default (section_plan p) [])) \<longrightarrow>
          (\<exists>exam'. apply_gemini_plan exam p = Inr exam'))"
proof -
  from assms have orig: "dict_get_default (sections exam) [] = Some (sections_of exam)"
    by (cases "sections exam") (simp_all add: sections_of_def)
  have skip: "apply_gemini_plan exam (skip_beyond (length (sections_of exam)) p) = apply_gemini_plan exam p"
    by (cases "section_plan p")
       (simp_all add: skip_beyond_def apply_gemini_plan_def orig apply_entries_filter)
  have total: "\<exists>exam'. apply_gemini_plan exam p = Inr exam'"
    if "list_all nonneg_entry (or_empty (dict_get_default (section_plan p) []))"
  proof -
    from apply_entries_total[OF that] obtain out where
      "apply_entries (Some (sections_of exam)) (or_empty (dict_get_default (section_plan p) [])) [] = Inr out"
      by blast
    then show ?thesis by (simp add: apply_gemini_plan_def orig Let_def)
  qed
  from skip total show ?thesis by blast
qed



theorem apply_gemini_plan_skips_beyond_witness:
  "sections one_section_exam \<noteq> Null
   \<and> list_all nonneg_entry (or_empty (dict_get_default (section_plan beyond_plan) []))
   \<and> apply_gemini_plan one_section_exam (skip_beyond 1 beyond_plan)
       = apply_gemini_plan one_section_exam beyond_plan
   \<and> (\<exists>exam'. apply_gemini_plan one_section_exam beyond_plan = Inr exam')"
proof -
  have h: "sections one_section_exam \<noteq> Null"
    by (simp add: one_section_exam_def)
  have n: "length (sections_of one_section_exam) = 1"
    by (simp add: one_section_exam_def sections_of_def)
  have nonneg: "list_all nonneg_entry (or_empty (dict_get_default (section_plan beyond_plan) []))"
    by (simp add: beyond_plan_def nonneg_entry_def)
  from apply_gemini_plan_skips_beyond[OF h, of beyond_plan] h n nonneg
  show ?thesis by simp
qed

subsection \<open>The question count of an applied plan\<close>

lemma count_questions_total: "count_questions exam = total_questions (sections_of exam)"
  by (simp add: count_questions_sum total_questions_def)

lemma in_range_Cons [simp]: "in_range n (i # idxs) \<longleftrightarrow> 0 \<le> i \<and> i < int n \<and> in_range n idxs"
  by (auto simp: in_range_def)

lemma in_range_Nil [simp]: "in_range n []"
  by (simp add: in_range_def)

lemma in_range_append [simp]: "in_range n (xs @ ys) \<longleftrightarrow> in_range n xs \<and> in_range n ys"
  by (auto simp: in_range_def)

lemma merge_indices_count:
  "in_range (length secs) idxs \<Longrightarrow>
   \<exists>merged. merge_indices (Some secs) idxs last_sec = Inr merged \<and>
     length (questions_of merged) =
       length (questions_of last_sec) + (\<Sum>i\<leftarrow>idxs. length (questions_of (secs ! nat i)))"
proof (induction idxs arbitrary: last_sec)
  case Nil
  show ?case by simp
next
  case (Cons i idxs)
  then have i: "0 \<le> i" "i < int (length secs)" and rest: "in_range (length secs) idxs" by simp_all
  let ?sec1 = "last_sec\<lparr>questions := Val (questions_of last_sec @ questions_of (secs ! nat i))\<rparr>"
  let ?orig = "secs ! nat i"
  let ?sec2 = "if truthy (dict_get (instructions ?orig)) then
                 (if or_empty (dict_get (instructions ?sec1)) \<noteq> []
                  then ?sec1\<lparr>instructions :=
                         Val (or_empty (dict_get (instructions ?sec1)) @ blank_line @ or_empty (dict_get (instructions ?orig)))\<rparr>
                  else ?sec1\<lparr>instructions := Val (or_empty (dict_get (instructions ?orig)))\<rparr>)
               else ?sec1"
  have step: "merge_indices (Some secs) (i # idxs) last_sec = merge_indices (Some secs) idxs ?sec2"
    using i by (simp add: py_index_in_range Let_def)
  have len: "length (questions_of ?sec2) = length (questions_of last_sec) + length (questions_of ?orig)"
    by (simp add: questions_of_def)
  from Cons.IH[OF rest, of ?sec2] obtain merged where
    "merge_indices (Some secs) idxs ?sec2 = Inr merged"
    "length (questions_of merged) = length (questions_of ?sec2) + (\<Sum>i\<leftarrow>idxs. length (questions_of (secs ! nat i)))"
    by blast
  with step len show ?case by simp
qed

lemma collect_indices_count:
  "in_range (length secs) idxs \<Longrightarrow>
   \<exists>qs ci. collect_indices (Some secs) idxs all_questions combined = Inr (qs, ci) \<and>
     length qs = length all_questions + (\<Sum>i\<leftarrow>idxs. length (questions_of (secs ! nat i)))"
proof (induction idxs arbitrary: all_questions combined)
  case Nil
  show ?case by simp
next
  case (Cons i idxs)
  then have i: "0 \<le> i" "i < int (length secs)" and rest: "in_range (length secs) idxs" by simp_all
  let ?qs = "all_questions @ questions_of (secs ! nat i)"
  let ?ci = "if truthy (dict_get (instructions (secs ! nat i)))
             then combined @ [or_empty (dict_get (instructions (secs ! nat i)))] else combined"
  have step: "collect_indices (Some secs) (i # idxs) all_questions combined
              = collect_indices (Some secs) idxs ?qs ?ci"
    using i by (simp add: py_index_in_range)
  from Cons.IH[OF rest, of ?qs ?ci] obtain qs ci where
    "collect_indices (Some secs) idxs ?qs ?ci = Inr (qs, ci)"
    "length qs = length ?qs + (\<Sum>i\<leftarrow>idxs. length (questions_of (secs ! nat i)))"
    by blast
  with step show ?case by simp
qed

lemma total_questions_append [simp]:
  "total_questions (xs @ ys) = total_questions xs + total_questions ys"
  by (simp add: total_questions_def)

lemma total_questions_single [simp]: "total_questions [sec] = length (questions_of sec)"
  by (simp add: total_questions_def)

lemma total_questions_last:
  "xs \<noteq> [] \<Longrightarrow> total_questions xs = total_questions (butlast xs) + length (questions_of (last xs))"
  using total_questions_append[of "butlast xs" "[last xs]"] by simp

lemma build_section_questions [simp]:
  "questions_of (build_section t ni qs ci) = qs"
  by (simp add: build_section_def questions_of_def Let_def)

lemma apply_entries_count:
  "list_all (\<lambda>e. original_indices e \<noteq> Null) entries \<Longrightarrow>
   in_range (length secs) (concat (map entry_indices entries)) \<Longrightarrow>
   \<exists>out. apply_entries (Some secs) entries new_sections = Inr out \<and>
     total_questions out = total_questions new_sections
        + (\<Sum>i\<leftarrow>concat (map entry_indices entries). length (questions_of (secs ! nat i)))"
proof (induction entries arbitrary: new_sections)
  case Nil
  show ?case by simp
next
  case (Cons e entries)
  from Cons.prems(1) have idxs: "dict_get_default (original_indices e) [] = Some (entry_indices e)"
    by (cases "original_indices e") (simp_all add: entry_indices_def)
  from Cons.prems have here: "in_range (length secs) (entry_indices e)"
    and rest: "list_all (\<lambda>e. original_indices e \<noteq> Null) entries"
              "in_range (length secs) (concat (map entry_indices entries))"
    by simp_all
  show ?case
  proof (cases "dict_get_default (merge_strategy e) ''keep'' = Some ''merge_into_previous'' \<and> new_sections \<noteq> []")
    case True
    from merge_indices_count[OF here, of "last new_sections"] obtain merged where
      m: "merge_indices (Some secs) (entry_indices e) (last new_sections) = Inr merged"
         "length (questions_of merged) = length (questions_of (last new_sections))
            + (\<Sum>i\<leftarrow>entry_indices e. length (questions_of (secs ! nat i)))"
      by blast
    from Cons.IH[OF rest, of "butlast new_sections @ [merged]"] obtain out where
      o: "apply_entries (Some secs) entries (butlast new_sections @ [merged]) = Inr out"
         "total_questions out = total_questions (butlast new_sections @ [merged])
            + (\<Sum>i\<leftarrow>concat (map entry_indices entries). length (questions_of (secs ! nat i)))"
      by blast
    from True have "total_questions new_sections
        = total_questions (butlast new_sections) + length (questions_of (last new_sections))"
      by (simp add: total_questions_last)
    with True idxs m o show ?thesis by (simp add: Let_def)
  next
    case False
    from collect_indices_count[OF here, of "[]" "[]"] obtain qs ci where
      c: "collect_indices (Some secs) (entry_indices e) [] [] = Inr (qs, ci)"
         "length qs = (\<Sum>i\<leftarrow>entry_indices e. length (questions_of (secs ! nat i)))"
      by auto
    let ?new = "build_section (dict_get_default (new_title e) ''Section'')
                  (dict_get (new_instructions e)) qs ci"
    from Cons.IH[OF rest, of "new_sections @ [?new]"] obtain out where
      o: "apply_entries (Some secs) entries (new_sections @ [?new]) = Inr out"
         "total_questions out = total_questions (new_sections @ [?new])
            + (\<Sum>i\<leftarrow>concat (map entry_indices entries). length (questions_of (secs ! nat i)))"
      by blast
    from False idxs c o show ?thesis by (auto simp add: Let_def)
  qed
qed

lemma sum_over_partition:
  assumes "sort idxs = map int [0..<length secs]"
  shows "(\<Sum>i\<leftarrow>idxs. length (questions_of (secs ! nat i))) = total_questions secs"
proof -
  let ?f = "\<lambda>i. length (questions_of (secs ! nat i))"
  have "mset (sort idxs) = mset idxs" by simp
  with assms have m: "mset idxs = mset (map int [0..<length secs])" by simp
  have "sum_list (map ?f idxs) = sum_mset (image_mset ?f (mset idxs))"
    by (simp only: sum_mset_sum_list[symmetric] mset_map)
  also have "\<dots> = sum_mset (image_mset ?f (mset (map int [0..<length secs])))"
    by (simp only: m)
  also have "\<dots> = sum_list (map ?f (map int [0..<length secs]))"
    by (simp only: sum_mset_sum_list[symmetric] mset_map)
  also have "\<dots> = (\<Sum>k\<leftarrow>[0..<length secs]. length (questions_of (secs ! k)))"
    by (simp add: comp_def)
  also have "\<dots> = sum_list (map (\<lambda>sec. length (questions_of sec)) (map (\<lambda>k. secs ! k) [0..<length secs]))"
    by (simp add: comp_def)
  also have "\<dots> = total_questions secs"
    by (simp only: map_nth total_questions_def)
  finally show ?thesis .
qed

lemma partition_in_range:
  assumes "sort idxs = map int [0..<n]"
  shows "in_range n idxs"
proof -
  have "set (sort idxs) = set idxs" by simp
  with assms have "set idxs = set (map int [0..<n])" by simp
  then show ?thesis by (auto simp: in_range_def)
qed


subsection \<open>What is validated about a plan\<close>

text \<open>
  Claim C2, as the code has it. A plan is not checked against the partition condition before
  it is applied; it is applied as it is and only its result is checked, by the question
  count. A plan that does satisfy the partition condition (with an \<open>analysis\<close> that is
  not null, for an exam whose sections are a list) is applied without failure, keeps the
  question count, and its result is the exam that is stored.
\<close>

theorem partition_plan_accepted:
  fixes exam :: "'q exam"
  assumes part: "partition_plan (length (sections_of exam)) p"
    and an: "analysis p \<noteq> Null"
    and secs: "sections exam \<noteq> Null"
  shows "\<exists>exam'. apply_gemini_plan exam p = Inr exam'
           \<and> count_questions exam' = count_questions exam
           \<and> restructure_exam exam p = exam'"
proof -
  let ?entries = "or_empty (dict_get_default (section_plan p) [])"
  from secs have orig: "dict_get_default (sections exam) [] = Some (sections_of exam)"
    by (cases "sections exam") (simp_all add: sections_of_def)
  from an obtain a where a: "dict_get_default (analysis p) ''No analysis'' = Some a"
    by (cases "analysis p") simp_all
  from part have nonnull: "list_all (\<lambda>e. original_indices e \<noteq> Null) ?entries"
    and sorted: "sort (concat (map entry_indices ?entries)) = map int [0..<length (sections_of exam)]"
    by (simp_all add: partition_plan_def plan_indices_def)
  show ?thesis
  proof (cases "?entries = []")
    case True
    then have "apply_gemini_plan exam p = Inr exam"
      by (simp add: apply_gemini_plan_def Let_def)
    then show ?thesis
      by (simp add: restructure_exam_def Let_def a orig)
  next
    case False
    from apply_entries_count[OF nonnull partition_in_range[OF sorted], of "[]"]
    obtain out where out: "apply_entries (Some (sections_of exam)) ?entries [] = Inr out"
      and tot: "total_questions out = total_questions ([] :: 'q exam_section list)
          + (\<Sum>i\<leftarrow>concat (map entry_indices ?entries). length (questions_of (sections_of exam ! nat i)))"
      by blast
    from tot have "total_questions out = total_questions (sections_of exam)"
      by (simp add: sum_over_partition[OF sorted] total_questions_def)
    then have cnt: "count_questions (exam\<lparr>sections := Val out\<rparr>) = count_questions exam"
      by (simp add: count_questions_total sections_of_def)
    from False out have app: "apply_gemini_plan exam p = Inr (exam\<lparr>sections := Val out\<rparr>)"
      by (simp add: apply_gemini_plan_def Let_def orig)
    with cnt show ?thesis
      by (simp add: restructure_exam_def Let_def a)
  qed
qed

theorem partition_plan_accepted_witness:
  "partition_plan 2 covering_plan \<and> analysis covering_plan \<noteq> Null
   \<and> sections two_section_exam \<noteq> Null
   \<and> (\<exists>exam'. apply_gemini_plan two_section_exam covering_plan = Inr exam'
         \<and> count_questions exam' = count_questions two_section_exam
         \<and> restructure_exam two_section_exam covering_plan = exam')"
proof -
  have n: "length (sections_of two_section_exam) = 2"
    by (simp add: two_section_exam_def sections_of_def)
  have h1: "partition_plan 2 covering_plan"
    by (simp add: partition_plan_def plan_indices_def entry_indices_def covering_plan_def upt_rec)
  have h2: "analysis covering_plan \<noteq> Null"
    by (simp add: covering_plan_def)
  have h3: "sections two_section_exam \<noteq> Null"
    by (simp add: two_section_exam_def)
  from partition_plan_accepted[of two_section_exam covering_plan] h1 h2 h3 n
  show ?thesis by simp
qed

text \<open>
  The claim as written fails: the plan below names section 0 twice and section 1 never, so it
  is no partition of the two sections, yet it is applied and its result, in which question 7
  is lost and question 5 doubled, is stored, since the count is still two.
\<close>

theorem unvalidated_plan_counterexample:
  "\<not> partition_plan 2 repeating_plan
   \<and> apply_gemini_plan two_section_exam repeating_plan
       = Inr (two_section_exam\<lparr>sections :=
                Val [\<lparr>section_title = Val ''Part'', instructions = Null, questions = Val [5, 5]\<rparr>]\<rparr>)
   \<and> restructure_exam two_section_exam repeating_plan
       = two_section_exam\<lparr>sections :=
                Val [\<lparr>section_title = Val ''Part'', instructions = Null, questions = Val [5, 5]\<rparr>]\<rparr>"
proof -
  have a: "\<not> partition_plan 2 repeating_plan"
    by (simp add: partition_plan_def plan_indices_def entry_indices_def repeating_plan_def upt_rec)
  have b: "apply_gemini_plan two_section_exam repeating_plan
       = Inr (two_section_exam\<lparr>sections :=
                Val [\<lparr>section_title = Val ''Part'', instructions = Null, questions = Val [5, 5]\<rparr>]\<rparr>)"
    by (simp add: apply_gemini_plan_def repeating_plan_def two_section_exam_def Let_def
        py_index_def questions_of_def build_section_def)
  have c: "count_questions two_section_exam = 2"
    by (simp add: count_questions_def two_section_exam_def sections_of_def questions_of_def)
  have d: "count_questions (two_section_exam\<lparr>sections :=
                Val [\<lparr>section_title = Val ''Part'', instructions = Null, questions = Val [5, 5::nat]\<rparr>]\<rparr>) = 2"
    by (simp add: count_questions_def sections_of_def questions_of_def)
  have an: "dict_get_default (analysis repeating_plan) ''No analysis'' = Some ''merged''"
    by (simp add: repeating_plan_def)
  have e: "restructure_exam two_section_exam repeating_plan
       = two_section_exam\<lparr>sections :=
                Val [\<lparr>section_title = Val ''Part'', instructions = Null, questions = Val [5, 5]\<rparr>]\<rparr>"
    by (simp add: restructure_exam_def Let_def an b c d)
  from a b e show ?thesis by blast
qed


subsection \<open>What the repair does to each section\<close>

lemma fix_sections_questions:
  "map questions_of (fix_sections idx secs) = filter (\<lambda>qs. qs \<noteq> []) (map questions_of secs)"
proof (induction idx secs rule: fix_sections_induct)
  case (keep idx sec rest)
  then show ?case by (simp add: fix_sections_keep questions_of_def)
qed (simp_all add: fix_sections_drop_last fix_sections_drop_plain fix_sections_drop_merge)

lemma fix_sections_prefix:
  "pre = [] \<or> questions_of (last pre) \<noteq> [] \<Longrightarrow>
   fix_sections idx (pre @ xs) = fix_sections idx pre @ fix_sections (idx + length pre) xs"
proof (induction idx pre rule: fix_sections_induct)
  case (Nil idx)
  show ?case by simp
next
  case (drop_last idx sec)
  then show ?case by simp
next
  case (drop_plain idx sec rest)
  from drop_plain.prems drop_plain.hyps have "rest \<noteq> []" by auto
  with drop_plain.prems have "rest = [] \<or> questions_of (last rest) \<noteq> []" by simp
  from drop_plain.IH[OF this] drop_plain.hyps show ?case
    by (simp add: fix_sections_drop_plain)
next
  case (drop_merge idx sec next_sec rest)
  from drop_merge.prems
  have "merge_preamble sec next_sec # rest = [] \<or>
        questions_of (last (merge_preamble sec next_sec # rest)) \<noteq> []"
    by (cases rest) simp_all
  from drop_merge.IH[OF this] drop_merge.hyps show ?case
    by (simp add: fix_sections_drop_merge)
next
  case (keep idx sec rest)
  show ?case
  proof (cases rest)
    case Nil
    with keep.hyps show ?thesis by (simp add: fix_sections_keep)
  next
    case (Cons a as)
    with keep.prems have "rest = [] \<or> questions_of (last rest) \<noteq> []" by simp
    from keep.IH[OF this] keep.hyps show ?thesis by (simp add: fix_sections_keep)
  qed
qed

lemma merge_preamble_fields:
  "truthy (dict_get (instructions sec)) \<Longrightarrow>
   merge_preamble sec next_sec =
     next_sec\<lparr>instructions :=
                Val (if truthy (dict_get (instructions next_sec))
                     then or_empty (dict_get (instructions sec)) @ blank_line
                          @ or_empty (dict_get (instructions next_sec))
                     else or_empty (dict_get (instructions sec))),
              section_title :=
                (if \<not> truthy (dict_get (section_title next_sec)) \<and> truthy (dict_get (section_title sec))
                 then section_title sec else section_title next_sec)\<rparr>"
  by (cases "instructions sec"; cases "instructions next_sec"; cases "section_title sec")
     (simp_all add: merge_preamble_def Let_def)

text \<open>
  Claim C8. Take any section \<open>sec\<close> of an exam, at position \<open>length pre\<close> (counting from 0),
  that the loop reaches in its original state, that is, the section before it, if any, has
  questions. Then:
  \<^item> the sections of the repaired exam carry exactly the non-empty question lists of the
    original, in order: every section without questions is dropped and nothing else is;
  \<^item> if \<open>sec\<close> has no questions but instructions, and a section follows, the loop goes on
    with that next section changed: its instructions are those of \<open>sec\<close>, then a blank line,
    then its own (only those of \<open>sec\<close> when it has none), and its title becomes that of
    \<open>sec\<close> only if it has no title itself;
  \<^item> if \<open>sec\<close> has questions it survives, and when its title is null it gets the title
    \<open>Section k\<close> with \<open>k\<close> its position in the original list, counted from 1.
\<close>

theorem simple_fix_sections:
  assumes secs: "sections_of exam = pre @ sec # rest"
    and pre: "pre = [] \<or> questions_of (last pre) \<noteq> []"
  shows "map questions_of (sections_of (simple_fix exam))
           = filter (\<lambda>qs. qs \<noteq> []) (map questions_of (sections_of exam))
     \<and> (questions_of sec = [] \<and> truthy (dict_get (instructions sec)) \<and> rest \<noteq> [] \<longrightarrow>
          sections_of (simple_fix exam) =
            fix_sections 0 pre @
            fix_sections (length pre + 1)
              ((hd rest)\<lparr>instructions :=
                  Val (if truthy (dict_get (instructions (hd rest)))
                       then or_empty (dict_get (instructions sec)) @ blank_line
                            @ or_empty (dict_get (instructions (hd rest)))
                       else or_empty (dict_get (instructions sec))),
                section_title :=
                  (if \<not> truthy (dict_get (section_title (hd rest)))
                      \<and> truthy (dict_get (section_title sec))
                   then section_title sec else section_title (hd rest))\<rparr> # tl rest))
     \<and> (questions_of sec \<noteq> [] \<longrightarrow>
          sections_of (simple_fix exam) =
            fix_sections 0 pre @
            (if dict_get (section_title sec) = None
             then sec\<lparr>section_title := Val (''Section '' @ str_nat (length pre + 1))\<rparr>
             else sec) # fix_sections (length pre + 1) rest)"
proof -
  have split: "sections_of (simple_fix exam) = fix_sections 0 pre @ fix_sections (length pre) (sec # rest)"
    using fix_sections_prefix[OF pre, of 0 "sec # rest"] secs by simp
  have drop: "map questions_of (sections_of (simple_fix exam))
           = filter (\<lambda>qs. qs \<noteq> []) (map questions_of (sections_of exam))"
    by (simp add: fix_sections_questions)
  have merge: "sections_of (simple_fix exam) =
            fix_sections 0 pre @
            fix_sections (length pre + 1) (merge_preamble sec (hd rest) # tl rest)"
    if "questions_of sec = []" "truthy (dict_get (instructions sec))" "rest \<noteq> []"
  proof -
    from that(3) obtain next_sec rest' where "rest = next_sec # rest'" by (cases rest) auto
    with that split show ?thesis by (simp add: fix_sections_drop_merge)
  qed
  have keep: "sections_of (simple_fix exam) =
            fix_sections 0 pre @
            (if dict_get (section_title sec) = None
             then sec\<lparr>section_title := Val (''Section '' @ str_nat (length pre + 1))\<rparr>
             else sec) # fix_sections (length pre + 1) rest"
    if "questions_of sec \<noteq> []"
    using that split by (simp add: fix_sections_keep)
  from drop merge keep show ?thesis
    by (simp add: merge_preamble_fields)
qed

lemma str_nat_2: "str_nat (Suc (Suc 0)) = ''2''"
  by (simp add: str_nat.simps digit_char_def)

theorem simple_fix_sections_witness:
  "sections_of consignes_exam =
      [] @ \<lparr>section_title = Null,
            instructions = Val (''Consignes g'' @ [CHR 0xE9] @ ''n'' @ [CHR 0xE9] @ ''rales''),
            questions = Val []\<rparr>
         # [\<lparr>section_title = Null, instructions = Val ''Lisez le texte.'', questions = Val [3]\<rparr>]
   \<and> sections_of (simple_fix consignes_exam) =
      [\<lparr>section_title = Val ''Section 2'',
        instructions = Val (''Consignes g'' @ [CHR 0xE9] @ ''n'' @ [CHR 0xE9] @ ''rales''
                            @ [CHR 0x0A, CHR 0x0A] @ ''Lisez le texte.''),
        questions = Val [3]\<rparr>]"
proof -
  let ?s0 = "\<lparr>section_title = Null,
            instructions = Val (''Consignes g'' @ [CHR 0xE9] @ ''n'' @ [CHR 0xE9] @ ''rales''),
            questions = Val ([] :: nat list)\<rparr>"
  let ?s1 = "\<lparr>section_title = Null, instructions = Val ''Lisez le texte.'', questions = Val [3::nat]\<rparr>"
  have h: "sections_of consignes_exam = [] @ ?s0 # [?s1]"
    by (simp add: consignes_exam_def sections_of_def)
  from simple_fix_sections[OF h] h show ?thesis
    by (simp add: questions_of_def fix_sections_keep blank_line_def str_nat_2 del: sections_of_simple_fix)
qed


section \<open>Properties of the text cleanup\<close>

lemma scan_sub_prefix:
  "\<forall>c \<in> set pre. \<forall>t. m (c # t) = None \<Longrightarrow> scan_sub m 0 (pre @ s) = pre @ scan_sub m 0 s"
  by (induction pre) simp_all

lemma scan_sub_skip:
  "length xs = k \<Longrightarrow> scan_sub m k (xs @ ys) = scan_sub m 0 ys"
  by (induction xs arbitrary: k) auto

lemma match_ordinal_no_dollar: "c \<noteq> CHR ''$'' \<Longrightarrow> match_ordinal (c # t) = None"
  by (simp add: match_ordinal_def)

lemma match_underline_no_dollar: "c \<noteq> CHR ''$'' \<Longrightarrow> match_underline (c # t) = None"
  by (simp add: match_underline_def)

lemma literal_other_start: "c \<noteq> p \<Longrightarrow> literal (p # ps) new (c # t) = None"
  by (auto simp add: literal_def)

lemma plain_Cons [simp]: "plain (c # s) \<longleftrightarrow> c \<noteq> CHR ''$'' \<and> c \<noteq> backslash \<and> plain s"
  by (simp add: plain_def)

lemma plain_Nil [simp]: "plain []"
  by (simp add: plain_def)

lemma plain_append [simp]: "plain (xs @ ys) \<longleftrightarrow> plain xs \<and> plain ys"
  by (simp add: plain_def)

lemma plain_set: "plain s \<Longrightarrow> c \<in> set s \<Longrightarrow> c \<noteq> CHR ''$'' \<and> c \<noteq> backslash"
  by (simp add: plain_def list_all_iff)

lemma scan_ordinal_plain_prefix:
  "plain pre \<Longrightarrow> scan_sub match_ordinal 0 (pre @ s) = pre @ scan_sub match_ordinal 0 s"
  by (rule scan_sub_prefix) (blast dest: plain_set intro: match_ordinal_no_dollar)

lemma scan_ordinal_plain: "plain s \<Longrightarrow> scan_sub match_ordinal 0 s = s"
  using scan_ordinal_plain_prefix[of s "[]"] by simp

lemma scan_underline_plain: "plain s \<Longrightarrow> scan_sub match_underline 0 s = s"
  using scan_sub_prefix[of s match_underline "[]"]
  by (simp add: match_underline_no_dollar plain_set)

lemma replace_dollar_plain:
  "plain s \<Longrightarrow> py_replace (CHR ''$'' # ps) new s = s"
  using scan_sub_prefix[of s "literal (CHR ''$'' # ps) new" "[]"]
  by (simp add: py_replace_def literal_other_start plain_set)

lemma replace_backslash_plain:
  "plain s \<Longrightarrow> py_replace (backslash # ps) new s = s"
  using scan_sub_prefix[of s "literal (backslash # ps) new" "[]"]
  by (simp add: py_replace_def literal_other_start plain_set)

lemma digits_plain: "list_all is_digit ds \<Longrightarrow> plain ds"
  by (induction ds) (auto simp: is_digit_def backslash_def)

lemma suffix_plain: "sf \<in> set [''th'', ''st'', ''nd'', ''rd''] \<Longrightarrow> plain sf \<and> length sf = 2"
  by (auto simp: backslash_def)

lemma match_ordinal_hit:
  assumes ds: "ds \<noteq> []" "list_all is_digit ds"
    and sf: "sf \<in> set [''th'', ''st'', ''nd'', ''rd'']"
  shows "match_ordinal (''$'' @ ds @ ''^{'' @ sf @ ''}$'' @ post) = Some (ds @ sf, length ds + 7)"
proof -
  let ?tail = "''^{'' @ sf @ ''}$'' @ post"
  have tw: "takeWhile is_digit (ds @ ?tail) = ds"
    using ds(2) by (simp add: takeWhile_append2 list_all_iff is_digit_def)
  have dw: "dropWhile is_digit (ds @ ?tail) = ?tail"
    using ds(2) by (simp add: dropWhile_append2 list_all_iff is_digit_def)
  from sf have len: "length sf = 2" by auto
  have "drop 1 (''$'' @ ds @ ?tail) = ds @ ?tail" by simp
  with tw dw ds(1) sf len show ?thesis
    by (simp add: match_ordinal_def Let_def)
qed


lemma scan_ordinal_one:
  assumes pre: "plain pre" and post: "plain post"
    and ds: "ds \<noteq> []" "list_all is_digit ds"
    and sf: "sf \<in> set [''th'', ''st'', ''nd'', ''rd'']"
  shows "scan_sub match_ordinal 0 (pre @ ''$'' @ ds @ ''^{'' @ sf @ ''}$'' @ post)
         = pre @ ds @ sf @ post"
proof -
  let ?body = "ds @ ''^{'' @ sf @ ''}$''"
  from sf have len: "length ?body = length ds + 6" by auto
  have "scan_sub match_ordinal 0 (''$'' @ ?body @ post)
        = (ds @ sf) @ scan_sub match_ordinal (length ds + 6) (?body @ post)"
    using match_ordinal_hit[OF ds sf, of post] by (simp add: add.commute)
  also have "scan_sub match_ordinal (length ds + 6) (?body @ post) = scan_sub match_ordinal 0 post"
    by (rule scan_sub_skip) (rule len)
  also have "\<dots> = post"
    by (rule scan_ordinal_plain) (rule post)
  finally have "scan_sub match_ordinal 0 (''$'' @ ?body @ post) = ds @ sf @ post"
    by simp
  with scan_ordinal_plain_prefix[OF pre, of "''$'' @ ?body @ post"] show ?thesis
    by simp
qed

text \<open>
  Claim C7. \<open>clean_latex_for_language\<close> compares the subject it is given, which the
  caller has put in lower case, with the entries of \<open>LANGUAGE_SUBJECTS\<close> by equality. For
  a subject that is not in that set, recognised or not, every text comes back unchanged.
  For a subject in the set, an ordinal in math delimiters, such as \<open>$9^{th}$\<close>, between text
  without dollar signs and backslashes becomes the plain ordinal, such as \<open>9th\<close>, and the
  text around it stays as it is.
\<close>

theorem clean_latex_scope:
  "(subject_lower \<notin> set LANGUAGE_SUBJECTS \<longrightarrow>
      clean_latex_for_language text subject_lower = text)
   \<and> (subject_lower \<in> set LANGUAGE_SUBJECTS \<and> plain pre \<and> plain post
        \<and> digits \<noteq> [] \<and> list_all is_digit digits
        \<and> suffix \<in> set [''th'', ''st'', ''nd'', ''rd''] \<longrightarrow>
      clean_latex_for_language (pre @ ''$'' @ digits @ ''^{'' @ suffix @ ''}$'' @ post) subject_lower
        = pre @ digits @ suffix @ post)"
proof (intro conjI impI)
  assume "subject_lower \<notin> set LANGUAGE_SUBJECTS"
  then show "clean_latex_for_language text subject_lower = text"
    by (simp add: clean_latex_for_language_def)
next
  assume h: "subject_lower \<in> set LANGUAGE_SUBJECTS \<and> plain pre \<and> plain post
        \<and> digits \<noteq> [] \<and> list_all is_digit digits
        \<and> suffix \<in> set [''th'', ''st'', ''nd'', ''rd'']"
  let ?text = "pre @ ''$'' @ digits @ ''^{'' @ suffix @ ''}$'' @ post"
  let ?out = "pre @ digits @ suffix @ post"
  from h have step1: "scan_sub match_ordinal 0 ?text = ?out"
    by (intro scan_ordinal_one) simp_all
  from h have out: "plain ?out"
    using digits_plain[of digits] suffix_plain[of suffix] by simp
  have step2: "scan_sub match_underline 0 ?out = ?out"
    by (rule scan_underline_plain) (rule out)
  have step3: "py_replace (''$'' @ backslash # ''ldots$'') ''...'' ?out = ?out"
    using replace_dollar_plain[OF out] by simp
  have step4: "py_replace (backslash # ''ldots'') ''...'' ?out = ?out"
    by (rule replace_backslash_plain) (rule out)
  from h have "clean_latex_for_language ?text subject_lower
      = py_replace (backslash # ''ldots'') ''...''
          (py_replace (''$'' @ backslash # ''ldots$'') ''...''
             (scan_sub match_underline 0 (scan_sub match_ordinal 0 ?text)))"
    by (simp add: clean_latex_for_language_def Let_def)
  also have "\<dots> = ?out"
    by (simp only: step1 step2 step3 step4)
  finally show "clean_latex_for_language ?text subject_lower = ?out" .
qed

theorem clean_latex_scope_witness:
  "''physique'' \<notin> set LANGUAGE_SUBJECTS
   \<and> clean_latex_for_language ''$9^{th}$'' ''physique'' = ''$9^{th}$''
   \<and> ''anglais'' \<in> set LANGUAGE_SUBJECTS
   \<and> clean_latex_for_language ''In the $9^{th}$ grade'' ''anglais'' = ''In the 9th grade''"
proof -
  have a: "''physique'' \<notin> set LANGUAGE_SUBJECTS"
    by (simp add: LANGUAGE_SUBJECTS_def)
  have b: "''anglais'' \<in> set LANGUAGE_SUBJECTS"
    by (simp add: LANGUAGE_SUBJECTS_def)
  have c: "plain ''In the '' \<and> plain '' grade'' \<and> ''9'' \<noteq> [] \<and> list_all is_digit ''9''
           \<and> ''th'' \<in> set [''th'', ''st'', ''nd'', ''rd'']"
    by (simp add: backslash_def is_digit_def)
  from clean_latex_scope[of "''physique''" "''$9^{th}$''"] a
  have d: "clean_latex_for_language ''$9^{th}$'' ''physique'' = ''$9^{th}$''"
    by blast
  from clean_latex_scope[of "''anglais''" _ "''In the ''" "'' grade''" "''9''" "''th''"] b c
  have "clean_latex_for_language (''In the '' @ ''$'' @ ''9'' @ ''^{'' @ ''th'' @ ''}$'' @ '' grade'') ''anglais''
        = ''In the '' @ ''9'' @ ''th'' @ '' grade''"
    by blast
  then have e: "clean_latex_for_language ''In the $9^{th}$ grade'' ''anglais'' = ''In the 9th grade''"
    by simp
  from a b d e show ?thesis by blast
qed


section \<open>Properties of the answer inference\<close>

lemma resolve_type_correct [simp]: "correct (resolve_type question) = correct question"
  by (simp add: resolve_type_def Let_def)

lemma clean_fields_correct [simp]: "correct (clean_fields question subject_lower) = correct question"
  by (simp add: clean_fields_def Let_def)

text \<open>
  Claim C10. A question whose type, once Fix 0 has given a type to a question without one,
  is none of \<open>multiple_choice\<close>, \<open>fill_blank\<close> and \<open>true_false\<close> comes out of
  \<open>fix_question\<close> without failure and with its \<open>correct\<close> field as it was, whatever its
  \<open>final_answer\<close> and \<open>answer_parts\<close> are.
\<close>

theorem other_types_keep_correct:
  assumes "dict_get (qtype (resolve_type question)) \<noteq> Some ''multiple_choice''"
    and "dict_get (qtype (resolve_type question)) \<noteq> Some ''fill_blank''"
    and "dict_get (qtype (resolve_type question)) \<noteq> Some ''true_false''"
  shows "\<exists>q'. fix_question question subject_lower = Inr q' \<and> correct q' = correct question"
  using assms by (simp add: fix_question_def Let_def)

theorem other_types_keep_correct_witness:
  "dict_get (qtype (resolve_type short_answer_question)) \<noteq> Some ''multiple_choice''
   \<and> dict_get (qtype (resolve_type short_answer_question)) \<noteq> Some ''fill_blank''
   \<and> dict_get (qtype (resolve_type short_answer_question)) \<noteq> Some ''true_false''
   \<and> dict_get (final_answer short_answer_question) = Some ''b''
   \<and> (\<exists>q'. fix_question short_answer_question ''anglais'' = Inr q' \<and> correct q' = Null)"
proof -
  have t: "dict_get (qtype (resolve_type short_answer_question)) = Some ''short_answer''"
    by (simp add: short_answer_question_def resolve_type_def)
  have h1: "dict_get (qtype (resolve_type short_answer_question)) \<noteq> Some ''multiple_choice''"
    and h2: "dict_get (qtype (resolve_type short_answer_question)) \<noteq> Some ''fill_blank''"
    and h3: "dict_get (qtype (resolve_type short_answer_question)) \<noteq> Some ''true_false''"
    by (simp_all add: t)
  have c: "correct short_answer_question = Null"
    and f: "dict_get (final_answer short_answer_question) = Some ''b''"
    by (simp_all add: short_answer_question_def)
  from other_types_keep_correct[OF h1 h2 h3, of "''anglais''"] h1 h2 h3 c f
  show ?thesis by simp
qed

text \<open>
  Claim C6. For a question whose \<open>correct\<close> is set and not empty, the inference steps
  (Fix 1, 3 and 4) do nothing: \<open>fix_question\<close> gives what it gives with those steps taken
  out. So \<open>correct\<close> is never filled in from \<open>final_answer\<close> or \<open>answer_parts\<close> over
  a value that is there; for a question that is not multiple choice it comes out exactly
  as it was, and for a multiple-choice question only the separate key correction acts on it.
\<close>

theorem inference_keeps_correct:
  assumes "truthy_correct (dict_get (correct question))"
  shows "fix_question question subject_lower = fix_without_inference question subject_lower
    \<and> (dict_get (qtype (resolve_type question)) \<noteq> Some ''multiple_choice'' \<longrightarrow>
         (\<exists>q'. fix_question question subject_lower = Inr q' \<and> correct q' = correct question))"
  using assms
  by (auto simp add: fix_question_def fix_without_inference_def Let_def split: sum.splits)

theorem inference_keeps_correct_witness:
  "truthy_correct (dict_get (correct true_false_question))
   \<and> dict_get (final_answer true_false_question) = Some ''Vrai''
   \<and> fix_question true_false_question ''anglais'' = fix_without_inference true_false_question ''anglais''
   \<and> (\<exists>q'. fix_question true_false_question ''anglais'' = Inr q' \<and> correct q' = Val (Text ''faux''))"
proof -
  have h: "truthy_correct (dict_get (correct true_false_question))"
    by (simp add: true_false_question_def)
  have t: "dict_get (qtype (resolve_type true_false_question)) \<noteq> Some ''multiple_choice''"
    by (simp add: true_false_question_def resolve_type_def)
  have c: "correct true_false_question = Val (Text ''faux'')"
    and f: "dict_get (final_answer true_false_question) = Some ''Vrai''"
    by (simp_all add: true_false_question_def)
  from inference_keeps_correct[OF h, of "''anglais''"] t
  have r: "fix_question true_false_question ''anglais'' = fix_without_inference true_false_question ''anglais''
    \<and> (\<exists>q'. fix_question true_false_question ''anglais'' = Inr q'
           \<and> correct q' = correct true_false_question)"
    by blast
  from r[unfolded c] h f show ?thesis by blast
qed

subsection \<open>The first option with a property\<close>

lemma no_value_with_iff:
  "no_value_with P opts \<longleftrightarrow> (\<forall>(k, v) \<in> set opts. \<forall>s. v = Str s \<longrightarrow> \<not> P s)"
  by (induction opts) (auto simp: no_value_with_def split: jval.splits)

lemma first_option_with_None:
  "first_option_with P opts = None \<longleftrightarrow> no_value_with P opts"
  by (induction P opts rule: first_option_with.induct) (simp_all add: no_value_with_def)

lemma first_option_with_first:
  "no_value_with P pre \<Longrightarrow> P val \<Longrightarrow>
   first_option_with P (pre @ (key, Str val) # post) = Some key"
  by (induction P pre rule: first_option_with.induct) (simp_all add: no_value_with_def)

lemma first_option_with_key:
  "first_option_with P opts = Some key \<Longrightarrow> key \<in> fst ` set opts"
  by (induction P opts rule: first_option_with.induct) (auto split: if_splits)


subsection \<open>The key correction\<close>

text \<open>
  Claim C5. Take a question whose \<open>correct\<close> is a text that is not empty and is not, in
  lower case, the lower case of a key of its options. Matching compares lower-cased,
  stripped texts. Then:
  \<^item> if some option's value equals \<open>correct\<close>, the pass sets \<open>correct\<close> to the key of the
    first such option in the order of the options, whether or not an earlier option
    contains \<open>correct\<close> as a part;
  \<^item> if no value equals \<open>correct\<close> but some value contains it, the pass sets \<open>correct\<close> to
    the key of the first option whose value contains it;
  \<^item> so, if \<open>correct\<close> equals some option's value up to case, \<open>correct\<close> is a key of
    the options after the pass.
\<close>

theorem key_correction_pass:
  assumes c: "dict_get (correct question) = Some (Text c)" "c \<noteq> []"
    and opts: "dict_get (options question) = Some opts"
    and notkey: "py_lower c \<notin> set (map (\<lambda>(k, v). py_lower k) opts)"
  shows "(opts = pre @ (key, Str val) # post \<and> same_text val c
            \<and> no_value_with (\<lambda>s. same_text s c) pre \<longrightarrow>
          fix_mcq_correct_key question = Inr (question\<lparr>correct := Val (Text key)\<rparr>))
     \<and> (no_value_with (\<lambda>s. same_text s c) opts
          \<and> opts = pre' @ (key', Str val') # post' \<and> text_within c val'
          \<and> no_value_with (\<lambda>s. text_within c s) pre' \<longrightarrow>
          fix_mcq_correct_key question = Inr (question\<lparr>correct := Val (Text key')\<rparr>))
     \<and> ((\<exists>(k, v) \<in> set opts. \<exists>s. v = Str s \<and> py_lower s = py_lower c) \<longrightarrow>
          (\<exists>k \<in> fst ` set opts.
             fix_mcq_correct_key question = Inr (question\<lparr>correct := Val (Text k)\<rparr>)))"
proof (intro conjI impI)
  assume h: "opts = pre @ (key, Str val) # post \<and> same_text val c
            \<and> no_value_with (\<lambda>s. same_text s c) pre"
  then have "first_option_with (\<lambda>s. same_text s c) opts = Some key"
    by (simp add: first_option_with_first)
  with c opts notkey h show "fix_mcq_correct_key question = Inr (question\<lparr>correct := Val (Text key)\<rparr>)"
    by (simp add: fix_mcq_correct_key_def same_text_def)
next
  assume h: "no_value_with (\<lambda>s. same_text s c) opts
          \<and> opts = pre' @ (key', Str val') # post' \<and> text_within c val'
          \<and> no_value_with (\<lambda>s. text_within c s) pre'"
  then have "no_value_with (\<lambda>s. same_text s c) opts" by blast
  then have exact: "first_option_with (\<lambda>s. same_text s c) opts = None"
    by (simp only: first_option_with_None)
  from h have "first_option_with (\<lambda>s. text_within c s) opts = Some key'"
    by (simp add: first_option_with_first)
  with exact c opts notkey h
  show "fix_mcq_correct_key question = Inr (question\<lparr>correct := Val (Text key')\<rparr>)"
    by (simp add: fix_mcq_correct_key_def same_text_def text_within_def)
next
  assume "\<exists>(k, v) \<in> set opts. \<exists>s. v = Str s \<and> py_lower s = py_lower c"
  then obtain k s where ks: "(k, Str s) \<in> set opts" "py_lower s = py_lower c"
    by auto
  then have "same_text s c" by (simp add: same_text_def)
  with ks(1) have "\<not> no_value_with (\<lambda>s. same_text s c) opts"
    by (auto simp: no_value_with_iff)
  then obtain key where key: "first_option_with (\<lambda>s. same_text s c) opts = Some key"
    by (auto simp: first_option_with_None[symmetric])
  from ks(1) have "opts \<noteq> []" by auto
  with key c opts notkey
  have "fix_mcq_correct_key question = Inr (question\<lparr>correct := Val (Text key)\<rparr>)"
    by (simp add: fix_mcq_correct_key_def same_text_def)
  with first_option_with_key[OF key]
  show "\<exists>k \<in> fst ` set opts.
             fix_mcq_correct_key question = Inr (question\<lparr>correct := Val (Text k)\<rparr>)"
    by blast
qed

text \<open>The definitions that evaluate the string functions on a given text.\<close>

lemmas string_eval = py_lower_def lower_char_def is_upper_def py_strip_def is_space_def

theorem key_correction_pass_witness:
  "dict_get (correct paris_question) = Some (Text ''paris'') \<and> ''paris'' \<noteq> []
   \<and> dict_get (options paris_question) = Some [(''a'', Str ''Paris, France''), (''b'', Str ''Paris'')]
   \<and> py_lower ''paris'' \<notin> set (map (\<lambda>(k, v). py_lower k)
                                    [(''a'', Str ''Paris, France''), (''b'', Str ''Paris'')])
   \<and> text_within ''paris'' ''Paris, France''
   \<and> same_text ''Paris'' ''paris''
   \<and> no_value_with (\<lambda>s. same_text s ''paris'') [(''a'', Str ''Paris, France'')]
   \<and> fix_mcq_correct_key paris_question = Inr (paris_question\<lparr>correct := Val (Text ''b'')\<rparr>)"
proof -
  have h1: "dict_get (correct paris_question) = Some (Text ''paris'')"
    and h2: "''paris'' \<noteq> []"
    and h3: "dict_get (options paris_question) = Some [(''a'', Str ''Paris, France''), (''b'', Str ''Paris'')]"
    by (simp_all add: paris_question_def)
  have h4: "py_lower ''paris'' \<notin> set (map (\<lambda>(k, v). py_lower k)
                                    [(''a'', Str ''Paris, France''), (''b'', Str ''Paris'')])"
    by (simp add: string_eval)
  have w: "text_within ''paris'' ''Paris, France''"
    by (simp add: text_within_def string_eval)
  have e: "same_text ''Paris'' ''paris''"
    by (simp add: same_text_def string_eval)
  have n: "no_value_with (\<lambda>s. same_text s ''paris'') [(''a'', Str ''Paris, France'')]"
    by (simp add: no_value_with_def same_text_def string_eval)
  from key_correction_pass[OF h1 h2 h3 h4, of "[(''a'', Str ''Paris, France'')]" "''b''" "''Paris''" "[]"] e n
  have "fix_mcq_correct_key paris_question = Inr (paris_question\<lparr>correct := Val (Text ''b'')\<rparr>)"
    by simp
  with h1 h2 h3 h4 w e n show ?thesis by blast
qed


subsection \<open>The correct option from the final answer\<close>

lemma single_letter_option: "l \<in> set ''abcdef'' \<Longrightarrow> [l] \<in> set option_letters"
  by (auto simp: option_letters_def)

lemma letter_then_separator_iff:
  assumes "s \<notin> set option_letters"
  shows "(1 \<le> length s \<and> hd s \<in> set ''abcdef'' \<and> (length s = 1 \<or> s ! 1 \<in> set ''.):, ''))
         \<longleftrightarrow> letter_then_separator s"
proof (cases s)
  case Nil
  then show ?thesis by (simp add: letter_then_separator_def)
next
  case (Cons l rest)
  note s = Cons
  show ?thesis
  proof (cases rest)
    case Nil
    with s assms single_letter_option[of l] show ?thesis
      by (auto simp: letter_then_separator_def)
  next
    case (Cons sep rest')
    with s show ?thesis
      by (simp add: letter_then_separator_def)
  qed
qed

lemma letter_then_separator_hd:
  "letter_then_separator s \<Longrightarrow> [hd s] = take 1 s"
  by (cases s) (simp_all add: letter_then_separator_def)

text \<open>
  Claim C4, as the code has it. For a final answer that is not empty, written \<open>fa\<close> in
  lower case and stripped, the first half of Fix 1 sets \<open>correct\<close>
  \<^item> to \<open>fa\<close> itself when it is one of the letters a to f;
  \<^item> else to its first letter when that is one of a to f and a separator follows;
  \<^item> else to the key of the first option whose value, in lower case and stripped, equals
    \<open>fa\<close>;
  \<^item> and leaves the question as it is when no value equals \<open>fa\<close>: a value that only
    contains the final answer does not count.
\<close>

theorem mcq_from_final_priority:
  assumes "fa \<noteq> []"
  shows "(py_strip (py_lower fa) \<in> set option_letters \<longrightarrow>
            mcq_from_final question fa = question\<lparr>correct := Val (Text (py_strip (py_lower fa)))\<rparr>)
     \<and> (py_strip (py_lower fa) \<notin> set option_letters
          \<and> letter_then_separator (py_strip (py_lower fa)) \<longrightarrow>
            mcq_from_final question fa
              = question\<lparr>correct := Val (Text (take 1 (py_strip (py_lower fa))))\<rparr>)
     \<and> (py_strip (py_lower fa) \<notin> set option_letters
          \<and> \<not> letter_then_separator (py_strip (py_lower fa))
          \<and> or_empty (dict_get (options question)) = pre @ (key, Str val) # post
          \<and> same_text val fa \<and> no_value_with (\<lambda>s. same_text s fa) pre \<longrightarrow>
            mcq_from_final question fa = question\<lparr>correct := Val (Text key)\<rparr>)
     \<and> (py_strip (py_lower fa) \<notin> set option_letters
          \<and> \<not> letter_then_separator (py_strip (py_lower fa))
          \<and> no_value_with (\<lambda>s. same_text s fa) (or_empty (dict_get (options question))) \<longrightarrow>
            mcq_from_final question fa = question)"
proof -
  let ?fl = "py_strip (py_lower fa)"
  let ?opts = "or_empty (dict_get (options question))"
  define starts where
    "starts \<longleftrightarrow> 1 \<le> length ?fl \<and> hd ?fl \<in> set ''abcdef''
                 \<and> (length ?fl = 1 \<or> ?fl ! 1 \<in> set ''.):, '')"
  define found where "found = first_option_with (\<lambda>s. same_text s fa) ?opts"
  have test: "(\<lambda>val. py_strip (py_lower val) = ?fl \<or> ?fl = py_strip (py_lower val))
              = (\<lambda>s. same_text s fa)"
    by (auto simp: same_text_def fun_eq_iff)
  have unfolded: "mcq_from_final question fa =
      (if ?fl \<in> set option_letters then question\<lparr>correct := Val (Text ?fl)\<rparr>
       else if starts then question\<lparr>correct := Val (Text [hd ?fl])\<rparr>
       else if ?opts \<noteq> [] then
         (case found of Some key \<Rightarrow> question\<lparr>correct := Val (Text key)\<rparr> | None \<Rightarrow> question)
       else question)"
    using assms by (simp only: mcq_from_final_def Let_def test starts_def found_def if_True simp_thms)
  have starts_iff: "starts \<longleftrightarrow> letter_then_separator ?fl" if "?fl \<notin> set option_letters"
    unfolding starts_def by (rule letter_then_separator_iff[OF that])
  have one: "mcq_from_final question fa = question\<lparr>correct := Val (Text ?fl)\<rparr>"
    if "?fl \<in> set option_letters"
    using that by (simp only: unfolded if_True)
  have two: "mcq_from_final question fa = question\<lparr>correct := Val (Text (take 1 ?fl))\<rparr>"
    if "?fl \<notin> set option_letters" "letter_then_separator ?fl"
    using that starts_iff[OF that(1)] letter_then_separator_hd[OF that(2)]
    by (simp only: unfolded if_True if_False simp_thms)
  have three: "mcq_from_final question fa = question\<lparr>correct := Val (Text key)\<rparr>"
    if "?fl \<notin> set option_letters" "\<not> letter_then_separator ?fl"
       "?opts = pre @ (key, Str val) # post" "same_text val fa"
       "no_value_with (\<lambda>s. same_text s fa) pre"
  proof -
    from that(3-5) have "found = Some key"
      by (simp add: found_def first_option_with_first)
    moreover from that(3) have "?opts \<noteq> []" by simp
    moreover from that(1,2) have "\<not> starts" by (simp add: starts_iff)
    ultimately show ?thesis
      using that(1) by (simp add: unfolded)
  qed
  have four: "mcq_from_final question fa = question"
    if "?fl \<notin> set option_letters" "\<not> letter_then_separator ?fl"
       "no_value_with (\<lambda>s. same_text s fa) ?opts"
  proof -
    from that(3) have "found = None"
      by (simp only: found_def first_option_with_None)
    moreover from that(1,2) have "\<not> starts" by (simp add: starts_iff)
    ultimately show ?thesis
      using that(1) by (simp add: unfolded)
  qed
  from one two three four show ?thesis by blast
qed


theorem mcq_from_final_priority_witness:
  "''Color'' \<noteq> []
   \<and> py_strip (py_lower ''Color'') \<notin> set option_letters
   \<and> \<not> letter_then_separator (py_strip (py_lower ''Color''))
   \<and> or_empty (dict_get (options colour_question))
       = [(''a'', Str ''Colour''), (''b'', Str ''Colour'')] @ (''c'', Str ''Color'') # [(''d'', Str ''Colours'')]
   \<and> same_text ''Color'' ''Color''
   \<and> no_value_with (\<lambda>s. same_text s ''Color'') [(''a'', Str ''Colour''), (''b'', Str ''Colour'')]
   \<and> mcq_from_final colour_question ''Color'' = colour_question\<lparr>correct := Val (Text ''c'')\<rparr>
   \<and> fix_question colour_question ''physique'' = Inr (colour_question\<lparr>correct := Val (Text ''c'')\<rparr>)"
proof -
  have h0: "''Color'' \<noteq> []" by simp
  have fl: "py_strip (py_lower ''Color'') = ''color''"
    by (simp add: string_eval)
  have h1: "py_strip (py_lower ''Color'') \<notin> set option_letters"
    by (simp add: fl option_letters_def)
  have h2: "\<not> letter_then_separator (py_strip (py_lower ''Color''))"
    by (simp add: fl letter_then_separator_def)
  have h3: "or_empty (dict_get (options colour_question))
       = [(''a'', Str ''Colour''), (''b'', Str ''Colour'')] @ (''c'', Str ''Color'') # [(''d'', Str ''Colours'')]"
    by (simp add: colour_question_def)
  have h4: "same_text ''Color'' ''Color''"
    by (simp add: same_text_def)
  have h5: "no_value_with (\<lambda>s. same_text s ''Color'') [(''a'', Str ''Colour''), (''b'', Str ''Colour'')]"
    by (simp add: no_value_with_def same_text_def string_eval)
  from mcq_from_final_priority[OF h0, of colour_question
         "[(''a'', Str ''Colour''), (''b'', Str ''Colour'')]" "''c''" "''Color''" "[(''d'', Str ''Colours'')]"]
       h1 h2 h3 h4 h5
  have r: "mcq_from_final colour_question ''Color'' = colour_question\<lparr>correct := Val (Text ''c'')\<rparr>"
    by blast
  have fa: "py_strip (or_empty (dict_get (final_answer colour_question))) = ''Color''"
    by (simp add: colour_question_def py_strip_def is_space_def)
  have rt: "resolve_type colour_question = colour_question"
    by (simp add: resolve_type_def colour_question_def)
  have qt: "dict_get (qtype colour_question) = Some ''multiple_choice''"
    and c0: "\<not> truthy_correct (dict_get (correct colour_question))"
    by (simp_all add: colour_question_def)
  have parts: "mcq_from_parts (colour_question\<lparr>correct := Val (Text ''c'')\<rparr>) ps
               = colour_question\<lparr>correct := Val (Text ''c'')\<rparr>" for ps
    by (simp add: mcq_from_parts_def)
  have key: "fix_mcq_correct_key (colour_question\<lparr>correct := Val (Text ''c'')\<rparr>)
             = Inr (colour_question\<lparr>correct := Val (Text ''c'')\<rparr>)"
    by (simp add: fix_mcq_correct_key_def colour_question_def string_eval)
  have e: "fix_question colour_question ''physique''
           = Inr (colour_question\<lparr>correct := Val (Text ''c'')\<rparr>)"
    by (simp add: fix_question_def Let_def fa rt qt c0 r parts key clean_fields_def LANGUAGE_SUBJECTS_def)
  from h0 h1 h2 h3 h4 h5 r e show ?thesis by blast
qed

text \<open>
  The claim as written fails on the substring match: the final answer \<open>Paris\<close> is part of
  the text of option a, yet \<open>fix_question\<close> returns the question unchanged, with
  \<open>correct\<close> still unset.
\<close>

theorem final_answer_substring_counterexample:
  "dict_get (qtype part_question) = Some ''multiple_choice''
   \<and> \<not> truthy_correct (dict_get (correct part_question))
   \<and> dict_get (final_answer part_question) = Some ''Paris''
   \<and> dict_get (options part_question) = Some [(''a'', Str ''Paris, France''), (''b'', Str ''Lyon'')]
   \<and> text_within ''Paris'' ''Paris, France''
   \<and> fix_question part_question ''physique'' = Inr part_question"
proof -
  have a: "dict_get (qtype part_question) = Some ''multiple_choice''"
    and b: "\<not> truthy_correct (dict_get (correct part_question))"
    and c: "dict_get (final_answer part_question) = Some ''Paris''"
    and d: "dict_get (options part_question) = Some [(''a'', Str ''Paris, France''), (''b'', Str ''Lyon'')]"
    by (simp_all add: part_question_def)
  have w: "text_within ''Paris'' ''Paris, France''"
    by (simp add: text_within_def string_eval)
  have fa: "py_strip (or_empty (dict_get (final_answer part_question))) = ''Paris''"
    by (simp add: c py_strip_def is_space_def)
  have fl: "py_strip (py_lower ''Paris'') = ''paris''"
    by (simp add: string_eval)
  have rt: "resolve_type part_question = part_question"
    by (simp add: resolve_type_def part_question_def)
  have m: "mcq_from_final part_question ''Paris'' = part_question"
    by (simp add: mcq_from_final_def Let_def fl option_letters_def d) (simp add: string_eval)
  have p: "mcq_from_parts part_question (or_empty (dict_get_default (answer_parts part_question) []))
           = part_question"
    by (simp add: mcq_from_parts_def part_question_def)
  have e: "fix_question part_question ''physique'' = Inr part_question"
    by (simp add: fix_question_def Let_def fa rt a b m p clean_fields_def LANGUAGE_SUBJECTS_def)
  from a b c d w e show ?thesis by blast
qed


end
